theory Spec2Isabelle
  imports Complex_Main "HOL-Library.Sublist"
begin

section \<open>Values, rows and the Python built-ins the converter relies on\<close>

text \<open>
  The converter in \<^verbatim>\<open>config_driven_converter.py\<close> works on rows of a pandas table.
  A cell is a text, an integer or a floating-point number. The program never does
  arithmetic on a float: it only compares it with zero, takes its absolute value, tests
  it for truth and for NaN. These operations are exact, so a float is modelled by the
  real number it denotes, or one of the three special values. \<open>Finite 0\<close> stands for
  both zeros (they compare equal, are both false, and have the same absolute value).
\<close>

datatype pyfloat = Finite real | PosInf | NegInf | NaN

datatype pyval = PStr string | PInt int | PFloat pyfloat

datatype py_error = KeyError string | ValueError | TypeError | OverflowError

type_synonym row = "string \<rightharpoonup> pyval"

text \<open>
  Four facts about the Python library are parameters of the model. Three built-ins,
  because their results depend on the grammar of float literals and on IEEE rounding,
  which are not modelled:
  \<^item> \<open>float_of_str s\<close> is \<^verbatim>\<open>float(s)\<close> on a text; \<open>None\<close> stands for the \<^verbatim>\<open>ValueError\<close>
    Python raises when the text is no number;
  \<^item> \<open>float_of_int n\<close> is \<^verbatim>\<open>float(n)\<close> on an integer; \<open>None\<close> stands for the
    \<^verbatim>\<open>OverflowError\<close> Python raises when the integer is too large for a float;
  \<^item> \<open>str_of_float x\<close> is \<^verbatim>\<open>str(x)\<close> on a float.

  And \<open>pads_year\<close>: whether \<^verbatim>\<open>strftime\<close> writes the year of \<^verbatim>\<open>%Y\<close> on four digits. The
  library hands \<^verbatim>\<open>%Y\<close> to the C library of the platform: CPython 3.11 on Linux (glibc)
  writes a year below 1000 without leading zeros, \<^verbatim>\<open>'999'\<close> for the year 999; the C
  libraries of other platforms write \<^verbatim>\<open>'0999'\<close>.
\<close>

record builtins =
  float_of_str :: "string \<Rightarrow> pyfloat option"
  float_of_int :: "int \<Rightarrow> pyfloat option"
  str_of_float :: "pyfloat \<Rightarrow> string"
  pads_year :: bool

text \<open>\<^verbatim>\<open>row.get(key, default)\<close>\<close>

definition row_get :: "row \<Rightarrow> string \<Rightarrow> pyval \<Rightarrow> pyval" where
  "row_get r k d = (case r k of None \<Rightarrow> d | Some v \<Rightarrow> v)"

text \<open>Truth value of a cell, as in \<^verbatim>\<open>if value\<close>: NaN and the infinities are true.\<close>

fun truthy :: "pyval \<Rightarrow> bool" where
  "truthy (PStr s) = (s \<noteq> [])"
| "truthy (PInt n) = (n \<noteq> 0)"
| "truthy (PFloat x) = (x \<noteq> Finite 0)"

text \<open>\<^verbatim>\<open>float(value)\<close>\<close>

fun py_float :: "builtins \<Rightarrow> pyval \<Rightarrow> py_error + pyfloat" where
  "py_float B (PStr s) = (case float_of_str B s of None \<Rightarrow> Inl ValueError | Some x \<Rightarrow> Inr x)"
| "py_float B (PInt n) = (case float_of_int B n of None \<Rightarrow> Inl OverflowError | Some x \<Rightarrow> Inr x)"
| "py_float B (PFloat x) = Inr x"

text \<open>Comparison of a float with zero, and \<^verbatim>\<open>abs\<close>. Every comparison with NaN is false.\<close>

fun ge0 :: "pyfloat \<Rightarrow> bool" where
  "ge0 (Finite r) = (0 \<le> r)"
| "ge0 PosInf = True"
| "ge0 NegInf = False"
| "ge0 NaN = False"

fun lt0 :: "pyfloat \<Rightarrow> bool" where
  "lt0 (Finite r) = (r < 0)"
| "lt0 PosInf = False"
| "lt0 NegInf = True"
| "lt0 NaN = False"

fun py_abs :: "pyfloat \<Rightarrow> pyfloat" where
  "py_abs (Finite r) = Finite \<bar>r\<bar>"
| "py_abs PosInf = PosInf"
| "py_abs NegInf = PosInf"
| "py_abs NaN = NaN"

text \<open>
  \<^verbatim>\<open>safe_float_conversion\<close>: the conversion runs inside
  \<^verbatim>\<open>try ... except (ValueError, TypeError)\<close>, so every other exception leaves the function.
\<close>

definition safe_float_conversion :: "builtins \<Rightarrow> pyval \<Rightarrow> py_error + pyfloat" where
  "safe_float_conversion B v =
     (case (if truthy v then py_float B v else Inr (Finite 0)) of
        Inl e \<Rightarrow> (if e = ValueError \<or> e = TypeError then Inr (Finite 0) else Inl e)
      | Inr x \<Rightarrow> Inr x)"

text \<open>The substring test \<^verbatim>\<open>p in s\<close> on texts.\<close>

fun starts_with :: "string \<Rightarrow> string \<Rightarrow> bool" where
  "starts_with [] s = True"
| "starts_with (c # p) [] = False"
| "starts_with (c # p) (d # s) = (c = d \<and> starts_with p s)"

fun py_in :: "string \<Rightarrow> string \<Rightarrow> bool" where
  "py_in p [] = (p = [])"
| "py_in p (c # s) = (starts_with p (c # s) \<or> py_in p s)"

section \<open>Configuration documents\<close>

text \<open>
  The three configuration documents are dictionaries read from JSON. A key the program
  reads with \<^verbatim>\<open>d['k']\<close> and the documents always carry is a plain field; a key that is
  optional in the documents is an \<open>option\<close>, and reading it with \<^verbatim>\<open>d['k']\<close> when it is
  absent is a \<open>KeyError\<close>.
\<close>

record condition_entry =
  condition :: string
  action :: "string option"
  cond_value :: "pyval option"
  source_field :: "string option"

record logic_block =
  conditions :: "condition_entry list"
  default_action :: "(string \<times> pyval) list option"

record transformation_rule =
  rule_id :: string
  output_field :: "string option"
  logic :: logic_block

section \<open>Condition evaluator\<close>

text \<open>
  \<^verbatim>\<open>evaluate_condition\<close>. The body of the \<^verbatim>\<open>try\<close> block is \<open>evaluate_condition_try\<close>;
  the \<^verbatim>\<open>except Exception\<close> clause turns every exception of the body into \<open>False\<close>.
  A text that ends in a single quote is written as the text before the quote followed by
  the quote character \<open>CHR 0x27\<close>. \<open>pattern_texts\<close> lists the ten texts that the body
  looks for.
\<close>

definition pattern_texts :: "string list" where
  "pattern_texts =
    [''CURRENCY_Cosmos == 'JPY' AND PRODUCT_TYPE IN ['D', 'G']'',
     ''CURRENCY_Cosmos == 'JPY' AND PRODUCT_TYPE NOT IN ['D', 'G']'',
     ''CURRENCY_Cosmos != 'JPY' AND PRODUCT_TYPE IN ['D', 'G']'',
     ''CURRENCY_Cosmos != 'JPY' AND PRODUCT_TYPE NOT IN ['D', 'G']'',
     ''Currency_Flex == 'JPY'' @ [CHR 0x27],
     ''Currency_Flex != 'JPY'' @ [CHR 0x27],
     ''CONTRACT_STATUS == 'Y' AND FACE_VALUE >= 0'',
     ''CONTRACT_STATUS == 'Y' AND FACE_VALUE < 0'',
     ''CONTRACT_STATUS == 'A' AND FACE_VALUE >= 0'',
     ''CONTRACT_STATUS == 'A' AND FACE_VALUE < 0'']"

definition evaluate_condition_try :: "builtins \<Rightarrow> row \<Rightarrow> string \<Rightarrow> py_error + bool" where
  "evaluate_condition_try B r cond =
     (let currency_cosmos = row_get r ''CURRENCY_Cosmos'' (PStr '''');
          currency_flex = row_get r ''Currency_Flex'' (PStr '''');
          product_type = row_get r ''PRODUCT_TYPE'' (PStr '''');
          contract_status = row_get r ''CONTRACT_STATUS'' (PStr '''')
      in case safe_float_conversion B (row_get r ''FACE_VALUE'' (PInt 0)) of
           Inl e \<Rightarrow> Inl e
         | Inr face_value \<Rightarrow> Inr
            (if py_in ''CURRENCY_Cosmos == 'JPY' AND PRODUCT_TYPE IN ['D', 'G']'' cond then
               currency_cosmos = PStr ''JPY'' \<and> product_type \<in> set [PStr ''D'', PStr ''G'']
             else if py_in ''CURRENCY_Cosmos == 'JPY' AND PRODUCT_TYPE NOT IN ['D', 'G']'' cond then
               currency_cosmos = PStr ''JPY'' \<and> product_type \<notin> set [PStr ''D'', PStr ''G'']
             else if py_in ''CURRENCY_Cosmos != 'JPY' AND PRODUCT_TYPE IN ['D', 'G']'' cond then
               currency_cosmos \<noteq> PStr ''JPY'' \<and> product_type \<in> set [PStr ''D'', PStr ''G'']
             else if py_in ''CURRENCY_Cosmos != 'JPY' AND PRODUCT_TYPE NOT IN ['D', 'G']'' cond then
               currency_cosmos \<noteq> PStr ''JPY'' \<and> product_type \<notin> set [PStr ''D'', PStr ''G'']
             else if py_in (''Currency_Flex == 'JPY'' @ [CHR 0x27]) cond then
               currency_flex = PStr ''JPY''
             else if py_in (''Currency_Flex != 'JPY'' @ [CHR 0x27]) cond then
               currency_flex \<noteq> PStr ''JPY''
             else if py_in ''CONTRACT_STATUS == 'Y' AND FACE_VALUE >= 0'' cond then
               contract_status = PStr ''Y'' \<and> ge0 face_value
             else if py_in ''CONTRACT_STATUS == 'Y' AND FACE_VALUE < 0'' cond then
               contract_status = PStr ''Y'' \<and> lt0 face_value
             else if py_in ''CONTRACT_STATUS == 'A' AND FACE_VALUE >= 0'' cond then
               contract_status = PStr ''A'' \<and> ge0 face_value
             else if py_in ''CONTRACT_STATUS == 'A' AND FACE_VALUE < 0'' cond then
               contract_status = PStr ''A'' \<and> lt0 face_value
             else False))"

definition evaluate_condition :: "builtins \<Rightarrow> row \<Rightarrow> string \<Rightarrow> bool" where
  "evaluate_condition B r cond =
     (case evaluate_condition_try B r cond of Inl e \<Rightarrow> False | Inr b \<Rightarrow> b)"

section \<open>Texts of numbers\<close>

text \<open>\<^verbatim>\<open>str(n)\<close> on an integer: its decimal digits, with a minus sign when negative.\<close>

definition digit_char :: "nat \<Rightarrow> char" where
  "digit_char d = ''0123456789'' ! d"

function dec_digits :: "nat \<Rightarrow> string" where
  "dec_digits n = (if n < 10 then [digit_char n] else dec_digits (n div 10) @ [digit_char (n mod 10)])"
  by pat_completeness auto
termination
  by (relation "measure (\<lambda>n. n)") auto

declare dec_digits.simps [simp del]

definition str_of_int :: "int \<Rightarrow> string" where
  "str_of_int n = (if n < 0 then CHR ''-'' # dec_digits (nat (- n)) else dec_digits (nat n))"

text \<open>\<^verbatim>\<open>str(value)\<close>, which is also what an f-string writes for a value.\<close>

fun py_str :: "builtins \<Rightarrow> pyval \<Rightarrow> string" where
  "py_str B (PStr s) = s"
| "py_str B (PInt n) = str_of_int n"
| "py_str B (PFloat x) = str_of_float B x"

section \<open>Rule handlers\<close>

text \<open>
  \<^verbatim>\<open>calculate_leaf_gl_from_config\<close>. The loop returns from inside the first condition
  that holds and whose action contains one of the four tags, tested in the order of the
  source; a condition that holds but whose action contains none of them does not return,
  and the loop goes on.
\<close>

fun leaf_gl_loop :: "builtins \<Rightarrow> row \<Rightarrow> pyval \<Rightarrow> condition_entry list \<Rightarrow> py_error + pyval" where
  "leaf_gl_loop B r leaf_gl [] = Inr leaf_gl"
| "leaf_gl_loop B r leaf_gl (c # cs) =
     (if evaluate_condition B r (condition c) then
        (case action c of
           None \<Rightarrow> Inl (KeyError ''action'')
         | Some a \<Rightarrow>
             if py_in ''JPY_D_G'' a then Inr (PStr (py_str B leaf_gl @ ''_JPY_D_G''))
             else if py_in ''JPY_OTHER'' a then Inr (PStr (py_str B leaf_gl @ ''_JPY_OTHER''))
             else if py_in ''NOJPY_D_G'' a then Inr (PStr (py_str B leaf_gl @ ''_NOJPY_D_G''))
             else if py_in ''NOJPY_OTHER'' a then Inr (PStr (py_str B leaf_gl @ ''_NOJPY_OTHER''))
             else leaf_gl_loop B r leaf_gl cs)
      else leaf_gl_loop B r leaf_gl cs)"

definition calculate_leaf_gl_from_config ::
  "builtins \<Rightarrow> row \<Rightarrow> transformation_rule \<Rightarrow> py_error + pyval" where
  "calculate_leaf_gl_from_config B r rule =
     leaf_gl_loop B r (row_get r ''LEAF_GL'' (PStr '''')) (conditions (logic rule))"

text \<open>\<^verbatim>\<open>calculate_accrual_account_from_config\<close>\<close>

fun accrual_loop :: "builtins \<Rightarrow> row \<Rightarrow> condition_entry list \<Rightarrow> py_error + pyval" where
  "accrual_loop B r [] = Inr (PStr '''')"
| "accrual_loop B r (c # cs) =
     (if evaluate_condition B r (condition c) then
        (case source_field c of
           None \<Rightarrow> Inl (KeyError ''source_field'')
         | Some f \<Rightarrow> Inr (PStr (py_str B (row_get r f (PStr '''')))))
      else accrual_loop B r cs)"

definition calculate_accrual_account_from_config ::
  "builtins \<Rightarrow> row \<Rightarrow> transformation_rule \<Rightarrow> py_error + pyval" where
  "calculate_accrual_account_from_config B r rule = accrual_loop B r (conditions (logic rule))"

text \<open>
  \<^verbatim>\<open>calculate_drorcr_from_config\<close>. \<open>drorcr_loop\<close> is the \<^verbatim>\<open>for\<close> loop; its result
  \<open>None\<close> means that the loop ended without returning. The default action is read with
  \<^verbatim>\<open>.get('default_action', {})\<close> and tested for truth: an absent or empty dictionary is false.
\<close>

fun drorcr_loop :: "builtins \<Rightarrow> row \<Rightarrow> condition_entry list \<Rightarrow> (py_error + pyval) option" where
  "drorcr_loop B r [] = None"
| "drorcr_loop B r (c # cs) =
     (if evaluate_condition B r (condition c) then
        (case cond_value c of
           None \<Rightarrow> Some (Inl (KeyError ''value''))
         | Some v \<Rightarrow> Some (Inr v))
      else drorcr_loop B r cs)"

definition calculate_drorcr_from_config ::
  "builtins \<Rightarrow> row \<Rightarrow> transformation_rule \<Rightarrow> py_error + pyval" where
  "calculate_drorcr_from_config B r rule =
     (case drorcr_loop B r (conditions (logic rule)) of
        Some res \<Rightarrow> res
      | None \<Rightarrow>
          (let default_action = (case default_action (logic rule) of None \<Rightarrow> [] | Some d \<Rightarrow> d)
           in if default_action \<noteq> [] then
                (case safe_float_conversion B (row_get r ''FACE_VALUE'' (PInt 0)) of
                   Inl e \<Rightarrow> Inl e
                 | Inr face_value \<Rightarrow> Inr (PStr (if ge0 face_value then ''C'' else ''D'')))
              else Inr (PStr ''C'')))"

text \<open>
  \<^verbatim>\<open>calculate_balance_sign_from_config\<close> and \<^verbatim>\<open>calculate_amounts_from_config\<close>. A returned
  dictionary is the list of its entries in the order of the source.
\<close>

definition calculate_balance_sign_from_config ::
  "builtins \<Rightarrow> row \<Rightarrow> transformation_rule \<Rightarrow> py_error + (string \<times> pyval) list" where
  "calculate_balance_sign_from_config B r rule =
     (let currency_flex = row_get r ''Currency_Flex'' (PStr '''')
      in case (if currency_flex = PStr ''JPY''
               then safe_float_conversion B (row_get r ''LCY_FACE_VALUE'' (PInt 0))
               else safe_float_conversion B (row_get r ''FACE_VALUE'' (PInt 0))) of
           Inl e \<Rightarrow> Inl e
         | Inr amount \<Rightarrow>
             (let sign = (if lt0 amount then ''D'' else ''C'')
              in Inr [(''OPBALSIGN'', PStr sign), (''CLBALSIGN'', PStr sign)]))"

definition calculate_amounts_from_config ::
  "builtins \<Rightarrow> row \<Rightarrow> transformation_rule \<Rightarrow> py_error + (string \<times> pyval) list" where
  "calculate_amounts_from_config B r rule =
     (let currency_flex = row_get r ''Currency_Flex'' (PStr '''')
      in case (if currency_flex = PStr ''JPY''
               then safe_float_conversion B (row_get r ''LCY_FACE_VALUE'' (PInt 0))
               else safe_float_conversion B (row_get r ''FACE_VALUE'' (PInt 0))) of
           Inl e \<Rightarrow> Inl e
         | Inr amount \<Rightarrow>
             Inr [(''AMOUNT'', PFloat (py_abs amount)), (''OPBAL'', PFloat amount),
                  (''CLBAL'', PFloat amount)])"

section \<open>Dates\<close>

text \<open>
  \<^verbatim>\<open>format_date\<close> calls \<^verbatim>\<open>datetime.strptime\<close> and \<^verbatim>\<open>strftime\<close> of the Python library.
  Both are modelled for the directives the converter uses (\<^verbatim>\<open>%Y\<close>, \<^verbatim>\<open>%m\<close>, \<^verbatim>\<open>%d\<close> and
  literal characters), after the regular expressions the library compiles a format to:
  \<^item> \<^verbatim>\<open>%Y\<close> is \<^verbatim>\<open>\d\d\d\d\<close>;
  \<^item> \<^verbatim>\<open>%m\<close> is \<^verbatim>\<open>1[0-2]|0[1-9]|[1-9]\<close>;
  \<^item> \<^verbatim>\<open>%d\<close> is \<^verbatim>\<open>3[0-1]|[1-2]\d|0[1-9]|[1-9]| [1-9]\<close>.
  The library matches the expression at the start of the text, alternatives in this order
  with backtracking, then rejects the text when characters remain after the match, and
  rejects a day that the month does not have and the year 0. Every rejection is a
  \<^verbatim>\<open>ValueError\<close>, here \<open>None\<close>. A text is a list of characters with codes below 256,
  among which the decimal digits are \<open>0\<close> to \<open>9\<close>. \<^verbatim>\<open>strftime\<close> writes month and day on
  two digits, and the year on four digits or without leading zeros, as the platform does
  (\<open>pads_year\<close>); the two differ for the years before 1000 only.
\<close>

datatype directive = DirY | DirM | DirD | Lit char

fun parse_format :: "string \<Rightarrow> directive list option" where
  "parse_format [] = Some []"
| "parse_format [c] = (if c = CHR ''%'' then None else Some [Lit c])"
| "parse_format (c # d # ds) =
     (if c = CHR ''%'' then
        (if d = CHR ''Y'' then map_option (Cons DirY) (parse_format ds)
         else if d = CHR ''m'' then map_option (Cons DirM) (parse_format ds)
         else if d = CHR ''d'' then map_option (Cons DirD) (parse_format ds)
         else None)
      else map_option (Cons (Lit c)) (parse_format (d # ds)))"

definition char_in :: "char \<Rightarrow> char \<Rightarrow> char \<Rightarrow> bool" where
  "char_in lo hi c = ((of_char lo :: nat) \<le> of_char c \<and> (of_char c :: nat) \<le> of_char hi)"

definition is_digit :: "char \<Rightarrow> bool" where
  "is_digit c = char_in (CHR ''0'') (CHR ''9'') c"

text \<open>One alternative of two characters, or of one: the matched text and the rest.\<close>

fun alt2 :: "(char \<Rightarrow> bool) \<Rightarrow> (char \<Rightarrow> bool) \<Rightarrow> string \<Rightarrow> (string \<times> string) list" where
  "alt2 P Q (a # b # s) = (if P a \<and> Q b then [([a, b], s)] else [])"
| "alt2 P Q s = []"

fun alt1 :: "(char \<Rightarrow> bool) \<Rightarrow> string \<Rightarrow> (string \<times> string) list" where
  "alt1 P (a # s) = (if P a then [([a], s)] else [])"
| "alt1 P [] = []"

fun alts :: "directive \<Rightarrow> string \<Rightarrow> (string \<times> string) list" where
  "alts DirY s =
     (case s of
        a # b # c # d # rest \<Rightarrow>
          (if is_digit a \<and> is_digit b \<and> is_digit c \<and> is_digit d then [([a, b, c, d], rest)] else [])
      | _ \<Rightarrow> [])"
| "alts DirM s =
     alt2 (\<lambda>c. c = CHR ''1'') (char_in (CHR ''0'') (CHR ''2'')) s
     @ alt2 (\<lambda>c. c = CHR ''0'') (char_in (CHR ''1'') (CHR ''9'')) s
     @ alt1 (char_in (CHR ''1'') (CHR ''9'')) s"
| "alts DirD s =
     alt2 (\<lambda>c. c = CHR ''3'') (char_in (CHR ''0'') (CHR ''1'')) s
     @ alt2 (char_in (CHR ''1'') (CHR ''2'')) is_digit s
     @ alt2 (\<lambda>c. c = CHR ''0'') (char_in (CHR ''1'') (CHR ''9'')) s
     @ alt1 (char_in (CHR ''1'') (CHR ''9'')) s
     @ alt2 (\<lambda>c. c = CHR '' '') (char_in (CHR ''1'') (CHR ''9'')) s"
| "alts (Lit c) s = alt1 (\<lambda>d. d = c) s"

fun first_some :: "('a \<Rightarrow> 'b option) \<Rightarrow> 'a list \<Rightarrow> 'b option" where
  "first_some f [] = None"
| "first_some f (x # xs) = (case f x of None \<Rightarrow> first_some f xs | Some y \<Rightarrow> Some y)"

text \<open>The first match of the directives at the start of the text: the text of each
  directive, and what remains of the input.\<close>

primrec rmatch :: "directive list \<Rightarrow> string \<Rightarrow> ((directive \<times> string) list \<times> string) option" where
  "rmatch [] s = Some ([], s)"
| "rmatch (d # ds) s =
     first_some (\<lambda>(m, rest). map_option (\<lambda>(fs, rest'). ((d, m) # fs, rest')) (rmatch ds rest))
       (alts d s)"

text \<open>\<^verbatim>\<open>int(text)\<close> on the text of a directive: digits, after a space at most.\<close>

definition int_of_text :: "string \<Rightarrow> nat" where
  "int_of_text s = foldl (\<lambda>a c. 10 * a + (of_char c - 48)) 0 (filter is_digit s)"

record date =
  year :: nat
  month :: nat
  day :: nat

definition is_leap :: "nat \<Rightarrow> bool" where
  "is_leap y = (y mod 4 = 0 \<and> (y mod 100 \<noteq> 0 \<or> y mod 400 = 0))"

definition days_in_month :: "nat \<Rightarrow> nat \<Rightarrow> nat" where
  "days_in_month y m =
     (if m = 2 then (if is_leap y then 29 else 28)
      else if m = 4 \<or> m = 6 \<or> m = 9 \<or> m = 11 then 30 else 31)"

definition valid_date :: "date \<Rightarrow> bool" where
  "valid_date dt = (1 \<le> year dt \<and> year dt \<le> 9999 \<and> 1 \<le> month dt \<and> month dt \<le> 12
     \<and> 1 \<le> day dt \<and> day dt \<le> days_in_month (year dt) (month dt))"

definition field_of :: "directive \<Rightarrow> nat \<Rightarrow> (directive \<times> string) list \<Rightarrow> nat" where
  "field_of d dflt fs = (case map_of fs d of None \<Rightarrow> dflt | Some t \<Rightarrow> int_of_text t)"

definition strptime :: "string \<Rightarrow> string \<Rightarrow> date option" where
  "strptime s fmt =
     (case parse_format fmt of
        None \<Rightarrow> None
      | Some ds \<Rightarrow>
          (case rmatch ds s of
             None \<Rightarrow> None
           | Some (fs, rest) \<Rightarrow>
               if rest \<noteq> [] then None
               else (let dt = \<lparr>year = field_of DirY 1900 fs, month = field_of DirM 1 fs,
                                day = field_of DirD 1 fs\<rparr>
                     in if valid_date dt then Some dt else None)))"

text \<open>
  \<^verbatim>\<open>dt.strftime('%Y%m%d')\<close>: the year as the platform writes it, month and day on two
  digits.
\<close>

definition zfill :: "nat \<Rightarrow> string \<Rightarrow> string" where
  "zfill w s = replicate (w - length s) (CHR ''0'') @ s"

definition strftime_Ymd :: "builtins \<Rightarrow> date \<Rightarrow> string" where
  "strftime_Ymd B dt =
     (if pads_year B then zfill 4 (dec_digits (year dt)) else dec_digits (year dt))
     @ zfill 2 (dec_digits (month dt)) @ zfill 2 (dec_digits (day dt))"

text \<open>\<^verbatim>\<open>pd.isna\<close> on a cell.\<close>

definition pd_isna :: "pyval \<Rightarrow> bool" where
  "pd_isna v = (v = PFloat NaN)"

text \<open>
  \<^verbatim>\<open>format_date\<close>. \<open>try_formats\<close> is the loop over the formats, \<open>None\<close> when it ends
  without returning. No operation of the outer \<^verbatim>\<open>try\<close> block can raise on a cell.
\<close>

fun try_formats :: "builtins \<Rightarrow> string \<Rightarrow> string list \<Rightarrow> string option" where
  "try_formats B s [] = None"
| "try_formats B s (fmt # fmts) =
     (case strptime s fmt of
        Some dt \<Rightarrow> Some (strftime_Ymd B dt)
      | None \<Rightarrow> try_formats B s fmts)"

definition date_formats :: "string list" where
  "date_formats = [''%Y-%m-%d'', ''%Y%m%d'', ''%d/%m/%Y'', ''%m/%d/%Y'']"

definition format_date :: "builtins \<Rightarrow> pyval \<Rightarrow> string" where
  "format_date B date_str =
     (if \<not> truthy date_str \<or> pd_isna date_str then ''''
      else (case try_formats B (py_str B date_str) date_formats of
              Some out \<Rightarrow> out
            | None \<Rightarrow> take 8 (py_str B date_str)))"

text \<open>\<^verbatim>\<open>format_dates_from_config\<close>\<close>

definition date_mappings :: "(string \<times> string) list" where
  "date_mappings = [(''VALUEDATE'', ''VALUE_DATE''), (''ENTRYDATE'', ''DEAL_DATE''),
     (''OPBALDATE'', ''VALUE_DATE''), (''CLBALDATE'', ''VALUE_DATE'')]"

definition format_dates_from_config ::
  "builtins \<Rightarrow> row \<Rightarrow> transformation_rule \<Rightarrow> (string \<times> pyval) list" where
  "format_dates_from_config B r rule =
     map (\<lambda>(output_field, input_field).
            (output_field, PStr (format_date B (row_get r input_field (PStr '''')))))
       date_mappings"

section \<open>Schemas, tables and the validator\<close>

text \<open>
  Input and output schema have the same shape. \<open>validation_rules\<close> is the list that
  \<^verbatim>\<open>.get('validation_rules', [])\<close> returns, and \<open>additional_fields\<close> the list that
  \<^verbatim>\<open>.get('additional_fields', {}).get('fields', [])\<close> returns: empty when the key is absent.
  A table has its column names and its rows. The calls of the logger are left out
  everywhere: they have no effect on what a function returns.
\<close>

record column =
  col_name :: string
  col_length :: "int option"
  col_data_type :: "string option"
  col_required :: "bool option"

record validation_rule =
  rule_type :: string
  vr_fields :: "string list option"
  vr_field :: "string option"
  valid_values :: "pyval list option"

record schema =
  columns :: "column list"
  validation_rules :: "validation_rule list"
  additional_fields :: "string list"

record table =
  df_columns :: "string list"
  df_rows :: "row list"

text \<open>\<^verbatim>\<open>apply_validation_rule\<close>. The two value rules read their keys and only log.\<close>

definition apply_validation_rule :: "table \<Rightarrow> validation_rule \<Rightarrow> py_error + bool" where
  "apply_validation_rule df rule =
     (if rule_type rule = ''required_fields'' then
        (case vr_fields rule of
           None \<Rightarrow> Inl (KeyError ''fields'')
         | Some fs \<Rightarrow>
             (let missing_fields = filter (\<lambda>f. f \<notin> set (df_columns df)) fs
              in if missing_fields \<noteq> [] then Inr False else Inr True))
      else if rule_type rule = ''currency_validation'' then
        (case vr_field rule of
           None \<Rightarrow> Inl (KeyError ''field'')
         | Some f \<Rightarrow>
             (case valid_values rule of
                None \<Rightarrow> Inl (KeyError ''valid_values'')
              | Some vs \<Rightarrow> Inr True))
      else if rule_type rule = ''product_type_validation'' then
        (case vr_field rule of
           None \<Rightarrow> Inl (KeyError ''field'')
         | Some f \<Rightarrow>
             (case valid_values rule of
                None \<Rightarrow> Inl (KeyError ''valid_values'')
              | Some vs \<Rightarrow> Inr True))
      else Inr True)"

text \<open>\<^verbatim>\<open>validate_input_data\<close>\<close>

definition required_columns :: "schema \<Rightarrow> string list" where
  "required_columns s =
     map col_name (filter (\<lambda>c. case col_required c of None \<Rightarrow> False | Some b \<Rightarrow> b) (columns s))"

fun validation_loop :: "table \<Rightarrow> validation_rule list \<Rightarrow> py_error + bool" where
  "validation_loop df [] = Inr True"
| "validation_loop df (rule # rules) =
     (case apply_validation_rule df rule of
        Inl e \<Rightarrow> Inl e
      | Inr ok \<Rightarrow> if \<not> ok then Inr False else validation_loop df rules)"

definition validate_input_data :: "schema \<Rightarrow> table \<Rightarrow> py_error + bool" where
  "validate_input_data s df =
     (let missing_columns = filter (\<lambda>c. c \<notin> set (df_columns df)) (required_columns s)
      in if missing_columns \<noteq> [] then Inr False
         else validation_loop df (validation_rules s))"

section \<open>Fixed-width parser\<close>

text \<open>
  \<^verbatim>\<open>s[a:b]\<close> on a text, with Python's treatment of negative and too large bounds, and
  \<^verbatim>\<open>s.strip()\<close>, which removes the white space of Python at both ends.
\<close>

definition py_slice :: "string \<Rightarrow> int \<Rightarrow> int \<Rightarrow> string" where
  "py_slice s a b =
     (let n = int (length s);
          lo = (if a < 0 then max (a + n) 0 else min a n);
          hi = (if b < 0 then max (b + n) 0 else min b n)
      in take (nat (hi - lo)) (drop (nat lo) s))"

definition is_space :: "char \<Rightarrow> bool" where
  "is_space c = ((of_char c :: nat) \<in> set [9, 10, 11, 12, 13, 28, 29, 30, 31, 32, 133, 160])"

definition py_strip :: "string \<Rightarrow> string" where
  "py_strip s = rev (dropWhile is_space (rev (dropWhile is_space s)))"

text \<open>
  \<^verbatim>\<open>parse_dat_line\<close>. \<open>parse_field\<close> is the body of the loop for one column at one
  position: the value stored in the record. Only \<^verbatim>\<open>ValueError\<close> is caught around
  \<^verbatim>\<open>float\<close>; any other exception reaches the outer \<^verbatim>\<open>except\<close>, which returns \<^verbatim>\<open>None\<close>.
\<close>

definition field_length :: "column \<Rightarrow> int" where
  "field_length c = (case col_length c of None \<Rightarrow> 1 | Some n \<Rightarrow> n)"

definition data_type :: "column \<Rightarrow> string" where
  "data_type c = (case col_data_type c of None \<Rightarrow> ''string'' | Some t \<Rightarrow> t)"

definition field_text :: "string \<Rightarrow> int \<Rightarrow> column \<Rightarrow> string" where
  "field_text line position c =
     (if position + field_length c > int (length line) then ''''
      else py_strip (py_slice line position (position + field_length c)))"

definition parse_field :: "builtins \<Rightarrow> string \<Rightarrow> int \<Rightarrow> column \<Rightarrow> py_error + pyval" where
  "parse_field B line position c =
     (let field_value = field_text line position c
      in if data_type c = ''string'' then Inr (PStr field_value)
         else if data_type c = ''numeric'' then
           (case (if field_value \<noteq> [] then py_float B (PStr field_value) else Inr (Finite 0)) of
              Inl e \<Rightarrow> if e = ValueError then Inr (PFloat (Finite 0)) else Inl e
            | Inr x \<Rightarrow> Inr (PFloat x))
         else Inr (PStr field_value))"

fun parse_columns :: "builtins \<Rightarrow> string \<Rightarrow> column list \<Rightarrow> int \<Rightarrow> row \<Rightarrow> py_error + row" where
  "parse_columns B line [] position record = Inr record"
| "parse_columns B line (c # cs) position record =
     (case parse_field B line position c of
        Inl e \<Rightarrow> Inl e
      | Inr v \<Rightarrow> parse_columns B line cs (position + field_length c) (record(col_name c \<mapsto> v)))"

definition parse_dat_line :: "builtins \<Rightarrow> schema \<Rightarrow> string \<Rightarrow> row option" where
  "parse_dat_line B s line =
     (case parse_columns B line (columns s) 0 Map.empty of
        Inl e \<Rightarrow> None
      | Inr record \<Rightarrow> Some record)"

section \<open>Field mapper, row transformer and orchestrator\<close>

record field_mapping =
  fm_output_field :: string
  input_field :: string
  transformation :: string
  default_value :: "pyval option"

record rules_document =
  transformation_rules :: "transformation_rule list"
  field_mappings :: "field_mapping list"

record converter =
  input_schema :: schema
  output_schema :: schema
  processing_rules :: rules_document

text \<open>\<^verbatim>\<open>apply_field_mapping\<close>\<close>

definition apply_field_mapping :: "builtins \<Rightarrow> row \<Rightarrow> field_mapping \<Rightarrow> py_error + pyval" where
  "apply_field_mapping B r m =
     (if transformation m = ''DIRECT_COPY'' then Inr (row_get r (input_field m) (PStr ''''))
      else if transformation m = ''DEFAULT_VALUE'' then
        (case default_value m of
           None \<Rightarrow> Inl (KeyError ''default_value'')
         | Some v \<Rightarrow> Inr v)
      else if transformation m = ''STRING_CONVERSION'' then
        Inr (PStr (py_str B (row_get r (input_field m) (PStr ''''))))
      else Inr (PStr ''''))"

text \<open>
  \<^verbatim>\<open>apply_transformation_rule\<close>. A handler returns one value or a dictionary; an unknown
  rule identifier gives \<^verbatim>\<open>None\<close>.
\<close>

datatype rule_result = RNone | RValue pyval | RDict "(string \<times> pyval) list"

definition apply_transformation_rule ::
  "builtins \<Rightarrow> row \<Rightarrow> transformation_rule \<Rightarrow> py_error + rule_result" where
  "apply_transformation_rule B r rule =
     (if rule_id rule = ''LEAF_GL_CALCULATION'' then
        map_sum id RValue (calculate_leaf_gl_from_config B r rule)
      else if rule_id rule = ''ACCRUAL_ACCOUNT_LOGIC'' then
        map_sum id RValue (calculate_accrual_account_from_config B r rule)
      else if rule_id rule = ''DRORCR_CALCULATION'' then
        map_sum id RValue (calculate_drorcr_from_config B r rule)
      else if rule_id rule = ''BALANCE_SIGN_CALCULATION'' then
        map_sum id RDict (calculate_balance_sign_from_config B r rule)
      else if rule_id rule = ''DATE_FORMATTING'' then
        Inr (RDict (format_dates_from_config B r rule))
      else if rule_id rule = ''AMOUNT_CALCULATION'' then
        map_sum id RDict (calculate_amounts_from_config B r rule)
      else Inr RNone)"

text \<open>
  \<^verbatim>\<open>transform_row\<close>. The dictionary \<^verbatim>\<open>transformed\<close> is a map; the three loops of the
  source are \<open>rules_loop\<close>, \<open>mappings_loop\<close> and \<open>fill_loop\<close>.
\<close>

definition dict_update :: "row \<Rightarrow> (string \<times> pyval) list \<Rightarrow> row" where
  "dict_update t kvs = fold (\<lambda>(k, v) m. m(k \<mapsto> v)) kvs t"

definition store_result :: "transformation_rule \<Rightarrow> rule_result \<Rightarrow> row \<Rightarrow> row" where
  "store_result rule res t =
     (case res of
        RDict kvs \<Rightarrow> dict_update t kvs
      | RValue v \<Rightarrow>
          (case output_field rule of
             None \<Rightarrow> t
           | Some f \<Rightarrow> if f \<noteq> [] then t(f \<mapsto> v) else t)
      | RNone \<Rightarrow> t)"

fun rules_loop :: "builtins \<Rightarrow> row \<Rightarrow> transformation_rule list \<Rightarrow> row \<Rightarrow> py_error + row" where
  "rules_loop B r [] t = Inr t"
| "rules_loop B r (rule # rest) t =
     (case apply_transformation_rule B r rule of
        Inl e \<Rightarrow> Inl e
      | Inr res \<Rightarrow> rules_loop B r rest (store_result rule res t))"

fun mappings_loop :: "builtins \<Rightarrow> row \<Rightarrow> field_mapping list \<Rightarrow> row \<Rightarrow> py_error + row" where
  "mappings_loop B r [] t = Inr t"
| "mappings_loop B r (m # ms) t =
     (case apply_field_mapping B r m of
        Inl e \<Rightarrow> Inl e
      | Inr v \<Rightarrow> mappings_loop B r ms (t(fm_output_field m \<mapsto> v)))"

fun fill_loop :: "string list \<Rightarrow> row \<Rightarrow> row" where
  "fill_loop [] t = t"
| "fill_loop (f # fs) t = fill_loop fs (if t f = None then t(f \<mapsto> PStr '''') else t)"

definition all_output_fields :: "schema \<Rightarrow> string list" where
  "all_output_fields s = map col_name (columns s) @ additional_fields s"

text \<open>The dictionary as it is after the rules and the mappings, before the filling.\<close>

definition populate :: "builtins \<Rightarrow> converter \<Rightarrow> row \<Rightarrow> py_error + row" where
  "populate B cfg r =
     (case rules_loop B r (transformation_rules (processing_rules cfg)) Map.empty of
        Inl e \<Rightarrow> Inl e
      | Inr t \<Rightarrow> mappings_loop B r (field_mappings (processing_rules cfg)) t)"

definition transform_row :: "builtins \<Rightarrow> converter \<Rightarrow> row \<Rightarrow> py_error + row" where
  "transform_row B cfg r =
     (case populate B cfg r of
        Inl e \<Rightarrow> Inl e
      | Inr t \<Rightarrow> Inr (fill_loop (all_output_fields (output_schema cfg)) t))"

text \<open>
  \<^verbatim>\<open>convert_data\<close> on a table. \<open>rows_loop\<close> is the loop over the rows, whose
  \<^verbatim>\<open>except Exception\<close> skips a row. \<open>frame_row\<close> is what
  \<^verbatim>\<open>pd.DataFrame(transformed_rows, columns=all_columns)\<close> keeps of one dictionary: the listed
  columns, a column without entry being NaN.
\<close>

fun rows_loop :: "builtins \<Rightarrow> converter \<Rightarrow> row list \<Rightarrow> row list \<Rightarrow> row list" where
  "rows_loop B cfg [] transformed_rows = transformed_rows"
| "rows_loop B cfg (r # rs) transformed_rows =
     (case transform_row B cfg r of
        Inl e \<Rightarrow> rows_loop B cfg rs transformed_rows
      | Inr t \<Rightarrow> rows_loop B cfg rs (transformed_rows @ [t]))"

definition frame_row :: "string list \<Rightarrow> row \<Rightarrow> row" where
  "frame_row cols t =
     (\<lambda>k. if k \<in> set cols then Some (case t k of None \<Rightarrow> PFloat NaN | Some v \<Rightarrow> v) else None)"

definition convert_data :: "builtins \<Rightarrow> converter \<Rightarrow> table \<Rightarrow> py_error + table" where
  "convert_data B cfg input_df =
     (case validate_input_data (input_schema cfg) input_df of
        Inl e \<Rightarrow> Inl e
      | Inr ok \<Rightarrow>
          if \<not> ok then Inl ValueError
          else (let transformed_rows = rows_loop B cfg (df_rows input_df) [];
                    all_columns = all_output_fields (output_schema cfg)
                in Inr \<lparr>df_columns = all_columns,
                        df_rows = map (frame_row all_columns) transformed_rows\<rparr>))"

section \<open>Notions of the specification and sample inputs\<close>

text \<open>
  The number of a cell of a row, stated on the content of the cell (\<open>None\<close> is a row
  without the column). A cell that is absent, an empty text, a text that \<^verbatim>\<open>float\<close>
  rejects, or zero has the number 0.0; any other text or integer has its float; a float
  has itself as its number, NaN and the infinities too. An integer too large for a float
  has no number.
\<close>

fun cell_number :: "builtins \<Rightarrow> pyval option \<Rightarrow> pyfloat option" where
  "cell_number B None = Some (Finite 0)"
| "cell_number B (Some (PStr s)) =
     (if s = [] then Some (Finite 0)
      else (case float_of_str B s of None \<Rightarrow> Some (Finite 0) | Some x \<Rightarrow> Some x))"
| "cell_number B (Some (PInt n)) = (if n = 0 then Some (Finite 0) else float_of_int B n)"
| "cell_number B (Some (PFloat x)) = Some x"

text \<open>
  The amount cell the specification describes for the balance sign and the amounts:
  \<^verbatim>\<open>LCY_FACE_VALUE\<close> when \<^verbatim>\<open>Currency_Flex\<close> is \<^verbatim>\<open>'JPY'\<close>, else \<^verbatim>\<open>FACE_VALUE\<close>.
\<close>

definition amount_cell :: "row \<Rightarrow> pyval option" where
  "amount_cell r =
     (if r ''Currency_Flex'' = Some (PStr ''JPY'') then r ''LCY_FACE_VALUE'' else r ''FACE_VALUE'')"

text \<open>
  Built-ins for the concrete examples. They agree with CPython 3.11 on Linux on the
  arguments the examples use: texts of at most 15 decimal digits, integers of absolute
  value at most \<open>2 ^ 53\<close> and integers from \<open>2 ^ 1024\<close> on, floats with an integral value
  below \<open>10 ^ 16\<close> in absolute value and the special values; the year of \<^verbatim>\<open>%Y\<close> is
  written without leading zeros. \<open>padding_builtins\<close> are the same built-ins on a platform
  that writes the year on four digits.
\<close>

definition sample_builtins :: builtins where
  "sample_builtins =
     \<lparr>float_of_str = (\<lambda>s. if s \<noteq> [] \<and> length s \<le> 15 \<and> list_all is_digit s
                           then Some (Finite (of_nat (int_of_text s))) else None),
      float_of_int = (\<lambda>n. if \<bar>n\<bar> < 2 ^ 1024 - 2 ^ 970 then Some (Finite (of_int n)) else None),
      str_of_float = (\<lambda>x. case x of Finite r \<Rightarrow> str_of_int \<lfloor>r\<rfloor> @ ''.0'' | PosInf \<Rightarrow> ''inf''
                           | NegInf \<Rightarrow> ''-inf'' | NaN \<Rightarrow> ''nan''),
      pads_year = False\<rparr>"

definition padding_builtins :: builtins where
  "padding_builtins = sample_builtins\<lparr>pads_year := True\<rparr>"

text \<open>A DRORCR rule for the examples, with the given default action.\<close>

definition sample_drorcr_rule :: "(string \<times> pyval) list option \<Rightarrow> transformation_rule" where
  "sample_drorcr_rule da =
     \<lparr>rule_id = ''DRORCR_CALCULATION'', output_field = Some ''DRORCR'',
       logic = \<lparr>conditions =
         [\<lparr>condition = ''CONTRACT_STATUS == 'Y' AND FACE_VALUE >= 0'', action = None,
            cond_value = Some (PStr ''D''), source_field = None\<rparr>,
          \<lparr>condition = ''CONTRACT_STATUS == 'Y' AND FACE_VALUE < 0'', action = None,
            cond_value = Some (PStr ''C''), source_field = None\<rparr>],
         default_action = da\<rparr>\<rparr>"

text \<open>
  A validation rule carries the keys that \<^verbatim>\<open>apply_validation_rule\<close> reads for its kind.
\<close>

definition rule_keys_present :: "validation_rule \<Rightarrow> bool" where
  "rule_keys_present rule =
     (if rule_type rule = ''required_fields'' then vr_fields rule \<noteq> None
      else if rule_type rule = ''currency_validation'' \<or> rule_type rule = ''product_type_validation''
      then vr_field rule \<noteq> None \<and> valid_values rule \<noteq> None
      else True)"

text \<open>The fields that the \<^verbatim>\<open>required_fields\<close> rules of a schema list.\<close>

definition required_fields_of :: "schema \<Rightarrow> string list" where
  "required_fields_of s =
     concat (map (\<lambda>rule. case vr_fields rule of None \<Rightarrow> [] | Some fs \<Rightarrow> fs)
       (filter (\<lambda>rule. rule_type rule = ''required_fields'') (validation_rules s)))"

text \<open>An input schema for the examples.\<close>

definition sample_input_schema :: schema where
  "sample_input_schema =
     \<lparr>columns =
        [\<lparr>col_name = ''RECORD_TYPE'', col_length = Some 3, col_data_type = Some ''string'',
           col_required = Some True\<rparr>,
         \<lparr>col_name = ''CURRENCY_Cosmos'', col_length = Some 3, col_data_type = Some ''string'',
           col_required = None\<rparr>,
         \<lparr>col_name = ''FACE_VALUE'', col_length = Some 8, col_data_type = Some ''numeric'',
           col_required = Some False\<rparr>],
      validation_rules =
        [\<lparr>rule_type = ''currency_validation'', vr_fields = None,
           vr_field = Some ''CURRENCY_Cosmos'', valid_values = Some [PStr ''JPY'', PStr ''USD'']\<rparr>,
         \<lparr>rule_type = ''required_fields'', vr_fields = Some [''RECORD_TYPE'', ''CURRENCY_Cosmos''],
           vr_field = None, valid_values = None\<rparr>],
      additional_fields = []\<rparr>"



text \<open>
  What the orchestrator keeps of one input row: its transformed row, or nothing when the
  transformation raises; and the rows of the output table for a list of input rows.
\<close>

definition transformed_of :: "builtins \<Rightarrow> converter \<Rightarrow> row \<Rightarrow> row list" where
  "transformed_of B cfg r = (case transform_row B cfg r of Inl e \<Rightarrow> [] | Inr t \<Rightarrow> [t])"

definition output_rows :: "builtins \<Rightarrow> converter \<Rightarrow> row list \<Rightarrow> row list" where
  "output_rows B cfg rs =
     map (frame_row (all_output_fields (output_schema cfg))) (concat (map (transformed_of B cfg) rs))"

text \<open>
  The fixed-width layout of the specification: the offset of column \<open>i\<close> is the sum of
  the lengths of the columns before it, and the value of a column is the text of its
  span, converted for a numeric column.
\<close>

definition offset :: "column list \<Rightarrow> nat \<Rightarrow> int" where
  "offset cs i = sum_list (map field_length (take i cs))"

definition field_value :: "builtins \<Rightarrow> string \<Rightarrow> int \<Rightarrow> column \<Rightarrow> pyval" where
  "field_value B line position c =
     (if data_type c = ''numeric'' then
        (if field_text line position c = [] then PFloat (Finite 0)
         else (case float_of_str B (field_text line position c) of
                 None \<Rightarrow> PFloat (Finite 0)
               | Some x \<Rightarrow> PFloat x))
      else PStr (field_text line position c))"

text \<open>
  An output schema and a converter for the examples, with the given field mappings, and
  three input rows; the face value of the second row is too large for a float.
\<close>

definition sample_output_schema :: schema where
  "sample_output_schema =
     \<lparr>columns =
        [\<lparr>col_name = ''SIDE'', col_length = None, col_data_type = None, col_required = None\<rparr>,
         \<lparr>col_name = ''OPBALSIGN'', col_length = None, col_data_type = None, col_required = None\<rparr>,
         \<lparr>col_name = ''DRORCR'', col_length = None, col_data_type = None, col_required = None\<rparr>],
      validation_rules = [],
      additional_fields = [''TERMID'']\<rparr>"

definition sample_converter :: "field_mapping list \<Rightarrow> converter" where
  "sample_converter fms =
     \<lparr>input_schema = sample_input_schema,
       output_schema = sample_output_schema,
       processing_rules =
         \<lparr>transformation_rules =
            [\<lparr>rule_id = ''BALANCE_SIGN_CALCULATION'', output_field = None,
               logic = \<lparr>conditions = [], default_action = None\<rparr>\<rparr>,
             sample_drorcr_rule None],
          field_mappings = fms\<rparr>\<rparr>"

definition side_mapping :: field_mapping where
  "side_mapping =
     \<lparr>fm_output_field = ''SIDE'', input_field = ''RECORD_TYPE'',
       transformation = ''DIRECT_COPY'', default_value = None\<rparr>"

definition termid_mapping :: field_mapping where
  "termid_mapping =
     \<lparr>fm_output_field = ''TERMID'', input_field = '''',
       transformation = ''DEFAULT_VALUE'', default_value = None\<rparr>"

definition sample_rows :: "row list" where
  "sample_rows =
     [[''RECORD_TYPE'' \<mapsto> PStr ''TXN'', ''CURRENCY_Cosmos'' \<mapsto> PStr ''JPY'',
       ''CONTRACT_STATUS'' \<mapsto> PStr ''Y'', ''FACE_VALUE'' \<mapsto> PInt 100000],
      [''RECORD_TYPE'' \<mapsto> PStr ''TXN'', ''CURRENCY_Cosmos'' \<mapsto> PStr ''USD'',
       ''CONTRACT_STATUS'' \<mapsto> PStr ''Y'', ''FACE_VALUE'' \<mapsto> PInt (2 ^ 1024)],
      [''RECORD_TYPE'' \<mapsto> PStr ''ADJ'', ''CURRENCY_Cosmos'' \<mapsto> PStr ''GBP'',
       ''CONTRACT_STATUS'' \<mapsto> PStr ''Y'', ''FACE_VALUE'' \<mapsto> PInt (- 200000)]]"

text \<open>The table of the sample rows, and a table restricted to some columns.\<close>

definition sample_table :: table where
  "sample_table =
     \<lparr>df_columns = [''RECORD_TYPE'', ''CURRENCY_Cosmos'', ''CONTRACT_STATUS'', ''FACE_VALUE''],
       df_rows = sample_rows\<rparr>"

definition select_columns :: "string list \<Rightarrow> table \<Rightarrow> table" where
  "select_columns cols df = \<lparr>df_columns = cols, df_rows = map (\<lambda>r. r |` set cols) (df_rows df)\<rparr>"

text \<open>The cells of a table, row by row, in the order of its columns.\<close>

definition cells :: "table \<Rightarrow> pyval option list list" where
  "cells df = map (\<lambda>r. map r (df_columns df)) (df_rows df)"

section \<open>Condition evaluator: totality and default\<close>

lemmas ev_defs = evaluate_condition_def evaluate_condition_try_def row_get_def
  safe_float_conversion_def sample_builtins_def Let_def

text \<open>
  Claim C8. The condition evaluator returns a truth value on every row and every
  condition text. A condition text that contains none of the ten pattern texts evaluates
  to false; when the body of the evaluator raises an exception (here \<open>e\<close>), the evaluator
  returns false; otherwise it returns what the body returns.
\<close>

theorem C8_evaluate_condition:
  "((\<forall>p \<in> set pattern_texts. \<not> py_in p cond) \<longrightarrow> evaluate_condition B r cond = False)
   \<and> (evaluate_condition_try B r cond = Inl e \<longrightarrow> evaluate_condition B r cond = False)
   \<and> (evaluate_condition_try B r cond = Inr b \<longrightarrow> evaluate_condition B r cond = b)"
  by (simp add: evaluate_condition_def evaluate_condition_try_def pattern_texts_def Let_def
        split: sum.splits)

text \<open>
  The three cases at concrete inputs: a text outside the catalogue, a face value too
  large for a float (the conversion raises \<^verbatim>\<open>OverflowError\<close> inside the evaluator), and
  an ordinary row.
\<close>

theorem C8_evaluate_condition_witness:
  "evaluate_condition sample_builtins [''FACE_VALUE'' \<mapsto> PInt 500] ''FACE_VALUE > 100'' = False
   \<and> evaluate_condition_try sample_builtins
        [''CONTRACT_STATUS'' \<mapsto> PStr ''Y'', ''FACE_VALUE'' \<mapsto> PInt (2 ^ 1024)]
        ''CONTRACT_STATUS == 'Y' AND FACE_VALUE >= 0'' = Inl OverflowError
   \<and> evaluate_condition sample_builtins
        [''CONTRACT_STATUS'' \<mapsto> PStr ''Y'', ''FACE_VALUE'' \<mapsto> PInt (2 ^ 1024)]
        ''CONTRACT_STATUS == 'Y' AND FACE_VALUE >= 0'' = False
   \<and> evaluate_condition_try sample_builtins
        [''CONTRACT_STATUS'' \<mapsto> PStr ''Y'', ''FACE_VALUE'' \<mapsto> PInt 100000]
        ''CONTRACT_STATUS == 'Y' AND FACE_VALUE >= 0'' = Inr True
   \<and> evaluate_condition sample_builtins
        [''CONTRACT_STATUS'' \<mapsto> PStr ''Y'', ''FACE_VALUE'' \<mapsto> PInt 100000]
        ''CONTRACT_STATUS == 'Y' AND FACE_VALUE >= 0'' = True"
proof -
  let ?big = "[''CONTRACT_STATUS'' \<mapsto> PStr ''Y'', ''FACE_VALUE'' \<mapsto> PInt (2 ^ 1024)]"
  let ?ok = "[''CONTRACT_STATUS'' \<mapsto> PStr ''Y'', ''FACE_VALUE'' \<mapsto> PInt 100000]"
  let ?c = "''CONTRACT_STATUS == 'Y' AND FACE_VALUE >= 0''"
  have h1: "\<forall>p \<in> set pattern_texts. \<not> py_in p ''FACE_VALUE > 100''"
    by (simp add: pattern_texts_def)
  have h2: "evaluate_condition_try sample_builtins ?big ?c = Inl OverflowError"
    by (simp add: evaluate_condition_try_def row_get_def safe_float_conversion_def
          sample_builtins_def)
  have h3: "evaluate_condition_try sample_builtins ?ok ?c = Inr True"
    by (simp add: evaluate_condition_try_def row_get_def safe_float_conversion_def
          sample_builtins_def)
  show ?thesis
    using h1 h2 h3
      C8_evaluate_condition [of "''FACE_VALUE > 100''" sample_builtins "[''FACE_VALUE'' \<mapsto> PInt 500]"]
      C8_evaluate_condition [of ?c sample_builtins ?big OverflowError]
      C8_evaluate_condition [of ?c sample_builtins ?ok _ True]
    by simp
qed

section \<open>LEAF_GL suffix\<close>

text \<open>
  The substring test is the sublist relation of the list library, and every text that
  contains one of the two \<^verbatim>\<open>NOJPY\<close> tags contains the corresponding \<^verbatim>\<open>JPY\<close> tag.
\<close>

lemma starts_with_prefix: "starts_with p s = prefix p s"
  by (induction p s rule: starts_with.induct) auto

lemma py_in_sublist: "py_in p s = sublist p s"
proof (induction s)
  case Nil
  then show ?case by simp
next
  case (Cons c s)
  then show ?case by (simp add: starts_with_prefix sublist_Cons_right)
qed

lemma py_in_suffix: "py_in (q @ p) s \<Longrightarrow> py_in p s"
  unfolding py_in_sublist sublist_def by (metis append.assoc)

lemma nojpy_tags_contain_jpy_tags:
  "py_in ''NOJPY_D_G'' a \<Longrightarrow> py_in ''JPY_D_G'' a"
  "py_in ''NOJPY_OTHER'' a \<Longrightarrow> py_in ''JPY_OTHER'' a"
  using py_in_suffix [of "''NO''" "''JPY_D_G''" a] py_in_suffix [of "''NO''" "''JPY_OTHER''" a]
  by simp_all

text \<open>
  So the loop never appends one of the two \<^verbatim>\<open>NOJPY\<close> suffixes: on a condition that holds
  and whose action contains a \<^verbatim>\<open>NOJPY\<close> tag it appends \<^verbatim>\<open>_JPY_D_G\<close> or \<^verbatim>\<open>_JPY_OTHER\<close>.
\<close>

lemma leaf_gl_loop_nojpy:
  assumes "evaluate_condition B r (condition c)" "action c = Some a"
    "py_in ''NOJPY_D_G'' a \<or> py_in ''NOJPY_OTHER'' a"
  shows "leaf_gl_loop B r leaf_gl (c # cs) = Inr (PStr (py_str B leaf_gl @ ''_JPY_D_G''))
    \<or> leaf_gl_loop B r leaf_gl (c # cs) = Inr (PStr (py_str B leaf_gl @ ''_JPY_OTHER''))"
  using assms nojpy_tags_contain_jpy_tags [of a] by auto

text \<open>
  Claim C2. The claim gives the suffix \<^verbatim>\<open>_NOJPY_D_G\<close> to an action tag that contains
  \<^verbatim>\<open>NOJPY_D_G\<close>, and \<^verbatim>\<open>_NOJPY_OTHER\<close> to one that contains \<^verbatim>\<open>NOJPY_OTHER\<close>. The code tests
  \<^verbatim>\<open>'JPY_D_G' in action\<close> and \<^verbatim>\<open>'JPY_OTHER' in action\<close> first, and both tags contain
  these texts: on a non-JPY row whose matching condition carries the tag \<^verbatim>\<open>NOJPY_D_G\<close>
  the code appends \<^verbatim>\<open>_JPY_D_G\<close>, and with the tag \<^verbatim>\<open>NOJPY_OTHER\<close> it appends \<^verbatim>\<open>_JPY_OTHER\<close>.
\<close>

theorem C2_leaf_gl_nojpy_tag:
  "calculate_leaf_gl_from_config sample_builtins
     [''CURRENCY_Cosmos'' \<mapsto> PStr ''USD'', ''PRODUCT_TYPE'' \<mapsto> PStr ''G'',
      ''LEAF_GL'' \<mapsto> PStr ''LEAF002'']
     \<lparr>rule_id = ''LEAF_GL_CALCULATION'', output_field = Some ''LEAF_GL'',
       logic = \<lparr>conditions =
         [\<lparr>condition = ''CURRENCY_Cosmos == 'JPY' AND PRODUCT_TYPE IN ['D', 'G']'',
            action = Some ''JPY_D_G'', cond_value = None, source_field = None\<rparr>,
          \<lparr>condition = ''CURRENCY_Cosmos != 'JPY' AND PRODUCT_TYPE IN ['D', 'G']'',
            action = Some ''NOJPY_D_G'', cond_value = None, source_field = None\<rparr>],
         default_action = None\<rparr>\<rparr>
     = Inr (PStr ''LEAF002_JPY_D_G'')
   \<and> calculate_leaf_gl_from_config sample_builtins
     [''CURRENCY_Cosmos'' \<mapsto> PStr ''GBP'', ''PRODUCT_TYPE'' \<mapsto> PStr ''L'',
      ''LEAF_GL'' \<mapsto> PStr ''LEAF003'']
     \<lparr>rule_id = ''LEAF_GL_CALCULATION'', output_field = Some ''LEAF_GL'',
       logic = \<lparr>conditions =
         [\<lparr>condition = ''CURRENCY_Cosmos != 'JPY' AND PRODUCT_TYPE NOT IN ['D', 'G']'',
            action = Some ''NOJPY_OTHER'', cond_value = None, source_field = None\<rparr>],
         default_action = None\<rparr>\<rparr>
     = Inr (PStr ''LEAF003_JPY_OTHER'')"
  by (simp add: calculate_leaf_gl_from_config_def ev_defs)

section \<open>Safe conversion\<close>

text \<open>
  What \<^verbatim>\<open>safe_float_conversion\<close> returns on the cell \<^verbatim>\<open>row.get(k, 0)\<close>: the number of the
  cell, and \<^verbatim>\<open>OverflowError\<close> when the cell has none. A float is at least 0, below 0,
  or NaN.
\<close>

lemma safe_float_conversion_cell:
  "safe_float_conversion B (row_get r k (PInt 0)) =
     (case cell_number B (r k) of None \<Rightarrow> Inl OverflowError | Some x \<Rightarrow> Inr x)"
proof (cases "r k")
  case None
  then show ?thesis by (simp add: safe_float_conversion_def row_get_def)
next
  case (Some v)
  then show ?thesis
    by (cases v) (simp_all add: safe_float_conversion_def row_get_def split: option.splits)
qed

lemma currency_flex_jpy:
  "(row_get r ''Currency_Flex'' (PStr '''') = PStr ''JPY'') = (r ''Currency_Flex'' = Some (PStr ''JPY''))"
  by (simp add: row_get_def split: option.splits)

lemma sign_cases: "ge0 x \<or> lt0 x \<or> x = NaN"
  by (cases x) auto

lemma lt0_not_ge0: "lt0 x \<Longrightarrow> \<not> ge0 x"
  by (cases x) auto

section \<open>DRORCR\<close>

lemma drorcr_loop_skip:
  "\<forall>c \<in> set pre. \<not> evaluate_condition B r (condition c) \<Longrightarrow>
     drorcr_loop B r (pre @ cs) = drorcr_loop B r cs"
  by (induction pre) auto

lemma drorcr_loop_none:
  "\<forall>c \<in> set cs. \<not> evaluate_condition B r (condition c) \<Longrightarrow> drorcr_loop B r cs = None"
  by (induction cs) auto

lemma drorcr_loop_find:
  "drorcr_loop B r cs =
     (case find (\<lambda>c. evaluate_condition B r (condition c)) cs of
        None \<Rightarrow> None
      | Some c \<Rightarrow>
          Some (case cond_value c of None \<Rightarrow> Inl (KeyError ''value'') | Some v \<Rightarrow> Inr v))"
  by (induction cs) (auto split: option.splits)

text \<open>
  The handler on every row and every rule: the first condition that holds decides; when
  none holds, the default action and the number of the \<^verbatim>\<open>FACE_VALUE\<close> cell decide.
\<close>

lemma drorcr_total:
  "calculate_drorcr_from_config B r rule =
     (case find (\<lambda>c. evaluate_condition B r (condition c)) (conditions (logic rule)) of
        Some c \<Rightarrow> (case cond_value c of None \<Rightarrow> Inl (KeyError ''value'') | Some v \<Rightarrow> Inr v)
      | None \<Rightarrow>
          if default_action (logic rule) = None \<or> default_action (logic rule) = Some []
          then Inr (PStr ''C'')
          else (case cell_number B (r ''FACE_VALUE'') of
                  None \<Rightarrow> Inl OverflowError
                | Some x \<Rightarrow> Inr (PStr (if ge0 x then ''C'' else ''D''))))"
  by (simp add: calculate_drorcr_from_config_def drorcr_loop_find safe_float_conversion_cell
        Let_def split: option.splits)

lemma drorcr_default:
  assumes "\<forall>c \<in> set (conditions (logic rule)). \<not> evaluate_condition B r (condition c)"
    and "default_action (logic rule) = Some da" and "da \<noteq> []"
  shows "calculate_drorcr_from_config B r rule =
     (case cell_number B (r ''FACE_VALUE'') of
        None \<Rightarrow> Inl OverflowError
      | Some x \<Rightarrow> Inr (PStr (if ge0 x then ''C'' else ''D'')))"
  using assms
  by (simp add: calculate_drorcr_from_config_def drorcr_loop_none safe_float_conversion_cell
        Let_def split: option.splits)

text \<open>
  Claim C4. On every row and every DRORCR rule the handler is as follows. When \<open>c\<close> is
  the first condition that holds (none of the conditions \<open>pre\<close> before it holds) and
  carries a literal value, that value is returned. When no condition holds and no default
  action is configured (the dictionary is absent or empty), the result is \<^verbatim>\<open>'C'\<close>. When no
  condition holds and a default action is configured, the number of the \<^verbatim>\<open>FACE_VALUE\<close>
  cell decides: \<^verbatim>\<open>'C'\<close> when it is at least 0, \<^verbatim>\<open>'D'\<close> when it is below 0; an absent cell,
  an empty or non-numeric text and zero count as 0.0 and give \<^verbatim>\<open>'C'\<close>, and -1 gives \<^verbatim>\<open>'D'\<close>.
  So far the handler does what the claim says. It does not on two kinds of rows. A cell
  that holds NaN, the missing value of a table, is not taken for 0.0: NaN is not at least
  0 and the result is \<^verbatim>\<open>'D'\<close>. On a cell that holds an integer too large for a float the
  conversion raises \<^verbatim>\<open>OverflowError\<close>, which \<^verbatim>\<open>safe_float_conversion\<close> does not catch, and
  the handler returns nothing. The last two conjuncts are these two rows on the sample
  rule.
\<close>

theorem C4_drorcr:
  "calculate_drorcr_from_config B r rule =
     (case find (\<lambda>c. evaluate_condition B r (condition c)) (conditions (logic rule)) of
        Some c \<Rightarrow> (case cond_value c of None \<Rightarrow> Inl (KeyError ''value'') | Some v \<Rightarrow> Inr v)
      | None \<Rightarrow>
          if default_action (logic rule) = None \<or> default_action (logic rule) = Some []
          then Inr (PStr ''C'')
          else (case cell_number B (r ''FACE_VALUE'') of
                  None \<Rightarrow> Inl OverflowError
                | Some x \<Rightarrow> Inr (PStr (if ge0 x then ''C'' else ''D''))))
   \<and> (conditions (logic rule) = pre @ c # post
      \<and> (\<forall>c' \<in> set pre. \<not> evaluate_condition B r (condition c'))
      \<and> evaluate_condition B r (condition c) \<and> cond_value c = Some v \<longrightarrow>
      calculate_drorcr_from_config B r rule = Inr v)
   \<and> ((\<forall>c \<in> set (conditions (logic rule)). \<not> evaluate_condition B r (condition c))
      \<and> (default_action (logic rule) = None \<or> default_action (logic rule) = Some []) \<longrightarrow>
      calculate_drorcr_from_config B r rule = Inr (PStr ''C''))
   \<and> ((\<forall>c \<in> set (conditions (logic rule)). \<not> evaluate_condition B r (condition c))
      \<and> default_action (logic rule) = Some da \<and> da \<noteq> [] \<longrightarrow>
      (cell_number B (r ''FACE_VALUE'') = Some x \<and> ge0 x \<longrightarrow>
         calculate_drorcr_from_config B r rule = Inr (PStr ''C''))
      \<and> (cell_number B (r ''FACE_VALUE'') = Some x \<and> lt0 x \<longrightarrow>
         calculate_drorcr_from_config B r rule = Inr (PStr ''D''))
      \<and> (r ''FACE_VALUE'' = None \<or> r ''FACE_VALUE'' = Some (PStr '''')
           \<or> (\<exists>s. r ''FACE_VALUE'' = Some (PStr s) \<and> float_of_str B s = None) \<longrightarrow>
         calculate_drorcr_from_config B r rule = Inr (PStr ''C''))
      \<and> (r ''FACE_VALUE'' = Some (PInt 0) \<or> r ''FACE_VALUE'' = Some (PFloat (Finite 0)) \<longrightarrow>
         calculate_drorcr_from_config B r rule = Inr (PStr ''C''))
      \<and> (r ''FACE_VALUE'' = Some (PFloat (Finite (- 1))) \<longrightarrow>
         calculate_drorcr_from_config B r rule = Inr (PStr ''D''))
      \<and> (r ''FACE_VALUE'' = Some (PFloat NaN) \<longrightarrow>
         calculate_drorcr_from_config B r rule = Inr (PStr ''D''))
      \<and> (r ''FACE_VALUE'' = Some (PInt n) \<and> n \<noteq> 0 \<and> float_of_int B n = None \<longrightarrow>
         calculate_drorcr_from_config B r rule = Inl OverflowError))
   \<and> calculate_drorcr_from_config sample_builtins
        [''CONTRACT_STATUS'' \<mapsto> PStr ''A'', ''FACE_VALUE'' \<mapsto> PFloat NaN]
        (sample_drorcr_rule (Some [(''action'', PStr ''SIGN'')])) = Inr (PStr ''D'')
   \<and> calculate_drorcr_from_config sample_builtins
        [''CONTRACT_STATUS'' \<mapsto> PStr ''A'', ''FACE_VALUE'' \<mapsto> PInt (2 ^ 1024)]
        (sample_drorcr_rule (Some [(''action'', PStr ''SIGN'')])) = Inl OverflowError"
proof -
  have first: "conditions (logic rule) = pre @ c # post
      \<and> (\<forall>c' \<in> set pre. \<not> evaluate_condition B r (condition c'))
      \<and> evaluate_condition B r (condition c) \<and> cond_value c = Some v \<longrightarrow>
      calculate_drorcr_from_config B r rule = Inr v"
  proof
    assume h: "conditions (logic rule) = pre @ c # post
      \<and> (\<forall>c' \<in> set pre. \<not> evaluate_condition B r (condition c'))
      \<and> evaluate_condition B r (condition c) \<and> cond_value c = Some v"
    then have "drorcr_loop B r (conditions (logic rule)) = Some (Inr v)"
      by (simp add: drorcr_loop_skip)
    then show "calculate_drorcr_from_config B r rule = Inr v"
      by (simp add: calculate_drorcr_from_config_def)
  qed
  have nodefault: "(\<forall>c \<in> set (conditions (logic rule)). \<not> evaluate_condition B r (condition c))
      \<and> (default_action (logic rule) = None \<or> default_action (logic rule) = Some []) \<longrightarrow>
      calculate_drorcr_from_config B r rule = Inr (PStr ''C'')"
  proof
    assume h: "(\<forall>c \<in> set (conditions (logic rule)). \<not> evaluate_condition B r (condition c))
      \<and> (default_action (logic rule) = None \<or> default_action (logic rule) = Some [])"
    then have n: "drorcr_loop B r (conditions (logic rule)) = None"
      by (simp add: drorcr_loop_none)
    with h show "calculate_drorcr_from_config B r rule = Inr (PStr ''C'')"
      by (auto simp: calculate_drorcr_from_config_def)
  qed
  have dflt: "(\<forall>c \<in> set (conditions (logic rule)). \<not> evaluate_condition B r (condition c))
      \<and> default_action (logic rule) = Some da \<and> da \<noteq> [] \<longrightarrow>
      (cell_number B (r ''FACE_VALUE'') = Some x \<and> ge0 x \<longrightarrow>
         calculate_drorcr_from_config B r rule = Inr (PStr ''C''))
      \<and> (cell_number B (r ''FACE_VALUE'') = Some x \<and> lt0 x \<longrightarrow>
         calculate_drorcr_from_config B r rule = Inr (PStr ''D''))
      \<and> (r ''FACE_VALUE'' = None \<or> r ''FACE_VALUE'' = Some (PStr '''')
           \<or> (\<exists>s. r ''FACE_VALUE'' = Some (PStr s) \<and> float_of_str B s = None) \<longrightarrow>
         calculate_drorcr_from_config B r rule = Inr (PStr ''C''))
      \<and> (r ''FACE_VALUE'' = Some (PInt 0) \<or> r ''FACE_VALUE'' = Some (PFloat (Finite 0)) \<longrightarrow>
         calculate_drorcr_from_config B r rule = Inr (PStr ''C''))
      \<and> (r ''FACE_VALUE'' = Some (PFloat (Finite (- 1))) \<longrightarrow>
         calculate_drorcr_from_config B r rule = Inr (PStr ''D''))
      \<and> (r ''FACE_VALUE'' = Some (PFloat NaN) \<longrightarrow>
         calculate_drorcr_from_config B r rule = Inr (PStr ''D''))
      \<and> (r ''FACE_VALUE'' = Some (PInt n) \<and> n \<noteq> 0 \<and> float_of_int B n = None \<longrightarrow>
         calculate_drorcr_from_config B r rule = Inl OverflowError)"
  proof (intro impI conjI)
    assume h: "(\<forall>c \<in> set (conditions (logic rule)). \<not> evaluate_condition B r (condition c))
      \<and> default_action (logic rule) = Some da \<and> da \<noteq> []"
    then have d: "calculate_drorcr_from_config B r rule =
       (case cell_number B (r ''FACE_VALUE'') of
          None \<Rightarrow> Inl OverflowError
        | Some x \<Rightarrow> Inr (PStr (if ge0 x then ''C'' else ''D'')))"
      using drorcr_default [of rule B r da] by simp
    { assume "cell_number B (r ''FACE_VALUE'') = Some x \<and> ge0 x"
      then show "calculate_drorcr_from_config B r rule = Inr (PStr ''C'')"
        by (simp add: d) }
    { assume "cell_number B (r ''FACE_VALUE'') = Some x \<and> lt0 x"
      then show "calculate_drorcr_from_config B r rule = Inr (PStr ''D'')"
        by (simp add: d lt0_not_ge0) }
    { assume "r ''FACE_VALUE'' = None \<or> r ''FACE_VALUE'' = Some (PStr '''')
           \<or> (\<exists>s. r ''FACE_VALUE'' = Some (PStr s) \<and> float_of_str B s = None)"
      then show "calculate_drorcr_from_config B r rule = Inr (PStr ''C'')"
        by (auto simp: d) }
    { assume "r ''FACE_VALUE'' = Some (PInt 0) \<or> r ''FACE_VALUE'' = Some (PFloat (Finite 0))"
      then show "calculate_drorcr_from_config B r rule = Inr (PStr ''C'')"
        by (auto simp: d) }
    { assume "r ''FACE_VALUE'' = Some (PFloat (Finite (- 1)))"
      then show "calculate_drorcr_from_config B r rule = Inr (PStr ''D'')"
        by (simp add: d) }
    { assume "r ''FACE_VALUE'' = Some (PFloat NaN)"
      then show "calculate_drorcr_from_config B r rule = Inr (PStr ''D'')"
        by (simp add: d) }
    { assume "r ''FACE_VALUE'' = Some (PInt n) \<and> n \<noteq> 0 \<and> float_of_int B n = None"
      then show "calculate_drorcr_from_config B r rule = Inl OverflowError"
        by (simp add: d) }
  qed
  have nan: "calculate_drorcr_from_config sample_builtins
        [''CONTRACT_STATUS'' \<mapsto> PStr ''A'', ''FACE_VALUE'' \<mapsto> PFloat NaN]
        (sample_drorcr_rule (Some [(''action'', PStr ''SIGN'')])) = Inr (PStr ''D'')"
    by (simp add: calculate_drorcr_from_config_def sample_drorcr_rule_def ev_defs)
  have big: "calculate_drorcr_from_config sample_builtins
        [''CONTRACT_STATUS'' \<mapsto> PStr ''A'', ''FACE_VALUE'' \<mapsto> PInt (2 ^ 1024)]
        (sample_drorcr_rule (Some [(''action'', PStr ''SIGN'')])) = Inl OverflowError"
    by (simp add: calculate_drorcr_from_config_def sample_drorcr_rule_def ev_defs)
  show ?thesis
    by (intro conjI) (rule drorcr_total first nodefault dflt nan big)+
qed

text \<open>
  The cases of C4 on the sample rule: the second condition is the first that holds;
  then rows of contract status \<^verbatim>\<open>'A'\<close>, on which no condition of the rule holds, with a
  positive, a negative, a missing, a non-numeric and a zero face value, the face value
  -1, NaN and an integer too large for a float; at last the rule without default action.
\<close>

theorem C4_drorcr_witness:
  "calculate_drorcr_from_config sample_builtins
      [''CONTRACT_STATUS'' \<mapsto> PStr ''Y'', ''FACE_VALUE'' \<mapsto> PInt (- 200000)]
      (sample_drorcr_rule (Some [(''action'', PStr ''SIGN'')])) = Inr (PStr ''C'')
   \<and> calculate_drorcr_from_config sample_builtins
      [''CONTRACT_STATUS'' \<mapsto> PStr ''A'', ''FACE_VALUE'' \<mapsto> PInt 150000]
      (sample_drorcr_rule (Some [(''action'', PStr ''SIGN'')])) = Inr (PStr ''C'')
   \<and> calculate_drorcr_from_config sample_builtins
      [''CONTRACT_STATUS'' \<mapsto> PStr ''A'', ''FACE_VALUE'' \<mapsto> PInt (- 75000)]
      (sample_drorcr_rule (Some [(''action'', PStr ''SIGN'')])) = Inr (PStr ''D'')
   \<and> calculate_drorcr_from_config sample_builtins
      [''CONTRACT_STATUS'' \<mapsto> PStr ''A'']
      (sample_drorcr_rule (Some [(''action'', PStr ''SIGN'')])) = Inr (PStr ''C'')
   \<and> calculate_drorcr_from_config sample_builtins
      [''CONTRACT_STATUS'' \<mapsto> PStr ''A'', ''FACE_VALUE'' \<mapsto> PStr ''n/a'']
      (sample_drorcr_rule (Some [(''action'', PStr ''SIGN'')])) = Inr (PStr ''C'')
   \<and> calculate_drorcr_from_config sample_builtins
      [''CONTRACT_STATUS'' \<mapsto> PStr ''A'', ''FACE_VALUE'' \<mapsto> PInt 0]
      (sample_drorcr_rule (Some [(''action'', PStr ''SIGN'')])) = Inr (PStr ''C'')
   \<and> calculate_drorcr_from_config sample_builtins
      [''CONTRACT_STATUS'' \<mapsto> PStr ''A'', ''FACE_VALUE'' \<mapsto> PFloat (Finite (- 1))]
      (sample_drorcr_rule (Some [(''action'', PStr ''SIGN'')])) = Inr (PStr ''D'')
   \<and> calculate_drorcr_from_config sample_builtins
      [''CONTRACT_STATUS'' \<mapsto> PStr ''Y'', ''FACE_VALUE'' \<mapsto> PFloat NaN]
      (sample_drorcr_rule (Some [(''action'', PStr ''SIGN'')])) = Inr (PStr ''D'')
   \<and> calculate_drorcr_from_config sample_builtins
      [''CONTRACT_STATUS'' \<mapsto> PStr ''Y'', ''FACE_VALUE'' \<mapsto> PInt (- (2 ^ 1024))]
      (sample_drorcr_rule (Some [(''action'', PStr ''SIGN'')])) = Inl OverflowError
   \<and> calculate_drorcr_from_config sample_builtins
      [''CONTRACT_STATUS'' \<mapsto> PStr ''A'', ''FACE_VALUE'' \<mapsto> PFloat (Finite (- 1))]
      (sample_drorcr_rule None) = Inr (PStr ''C'')"
proof -
  let ?da = "[(''action'', PStr ''SIGN'')]"
  let ?rule = "sample_drorcr_rule (Some ?da)"
  let ?c1 = "\<lparr>condition = ''CONTRACT_STATUS == 'Y' AND FACE_VALUE >= 0'', action = None,
            cond_value = Some (PStr ''D''), source_field = None\<rparr>"
  let ?c2 = "\<lparr>condition = ''CONTRACT_STATUS == 'Y' AND FACE_VALUE < 0'', action = None,
            cond_value = Some (PStr ''C''), source_field = None\<rparr>"
  let ?rY = "[''CONTRACT_STATUS'' \<mapsto> PStr ''Y'', ''FACE_VALUE'' \<mapsto> PInt (- 200000)]"
  let ?rPos = "[''CONTRACT_STATUS'' \<mapsto> PStr ''A'', ''FACE_VALUE'' \<mapsto> PInt 150000]"
  let ?rNeg = "[''CONTRACT_STATUS'' \<mapsto> PStr ''A'', ''FACE_VALUE'' \<mapsto> PInt (- 75000)]"
  let ?rNone = "[''CONTRACT_STATUS'' \<mapsto> PStr ''A'']"
  let ?rText = "[''CONTRACT_STATUS'' \<mapsto> PStr ''A'', ''FACE_VALUE'' \<mapsto> PStr ''n/a'']"
  let ?rZero = "[''CONTRACT_STATUS'' \<mapsto> PStr ''A'', ''FACE_VALUE'' \<mapsto> PInt 0]"
  let ?rM1 = "[''CONTRACT_STATUS'' \<mapsto> PStr ''A'', ''FACE_VALUE'' \<mapsto> PFloat (Finite (- 1))]"
  let ?rNaN = "[''CONTRACT_STATUS'' \<mapsto> PStr ''Y'', ''FACE_VALUE'' \<mapsto> PFloat NaN]"
  let ?rBig = "[''CONTRACT_STATUS'' \<mapsto> PStr ''Y'', ''FACE_VALUE'' \<mapsto> PInt (- (2 ^ 1024))]"
  have cs: "conditions (logic ?rule) = [?c1] @ ?c2 # []"
    and da: "default_action (logic ?rule) = Some ?da"
    and cs': "conditions (logic (sample_drorcr_rule None)) = [?c1] @ ?c2 # []"
    and da': "default_action (logic (sample_drorcr_rule None)) = None"
    by (simp_all add: sample_drorcr_rule_def)
  have y1: "\<not> evaluate_condition sample_builtins ?rY (condition ?c1)"
    and y2: "evaluate_condition sample_builtins ?rY (condition ?c2)"
    by (simp_all add: ev_defs)
  have n1: "\<forall>c \<in> set (conditions (logic ?rule)). \<not> evaluate_condition sample_builtins ?rPos (condition c)"
    and n2: "\<forall>c \<in> set (conditions (logic ?rule)). \<not> evaluate_condition sample_builtins ?rNeg (condition c)"
    and n3: "\<forall>c \<in> set (conditions (logic ?rule)). \<not> evaluate_condition sample_builtins ?rNone (condition c)"
    and n3': "\<forall>c \<in> set (conditions (logic ?rule)). \<not> evaluate_condition sample_builtins ?rText (condition c)"
    and n4: "\<forall>c \<in> set (conditions (logic ?rule)). \<not> evaluate_condition sample_builtins ?rZero (condition c)"
    and n5: "\<forall>c \<in> set (conditions (logic ?rule)). \<not> evaluate_condition sample_builtins ?rM1 (condition c)"
    and n6: "\<forall>c \<in> set (conditions (logic (sample_drorcr_rule None))).
               \<not> evaluate_condition sample_builtins ?rM1 (condition c)"
    and n7: "\<forall>c \<in> set (conditions (logic ?rule)). \<not> evaluate_condition sample_builtins ?rNaN (condition c)"
    and n8: "\<forall>c \<in> set (conditions (logic ?rule)). \<not> evaluate_condition sample_builtins ?rBig (condition c)"
    by (simp_all add: cs cs' ev_defs)
  have f1: "cell_number sample_builtins (?rPos ''FACE_VALUE'') = Some (Finite 150000)
              \<and> ge0 (Finite 150000)"
    and f2: "cell_number sample_builtins (?rNeg ''FACE_VALUE'') = Some (Finite (- 75000))
              \<and> lt0 (Finite (- 75000))"
    and f3: "float_of_str sample_builtins ''n/a'' = None"
    and f4: "float_of_int sample_builtins (- (2 ^ 1024)) = None"
    by (simp_all add: sample_builtins_def is_digit_def char_in_def)
  have r1: "calculate_drorcr_from_config sample_builtins ?rY ?rule = Inr (PStr ''C'')"
    using C4_drorcr [where rule = ?rule and pre = "[?c1]" and c = ?c2 and post = "[]"
        and B = sample_builtins and r = ?rY and v = "PStr ''C''",
        THEN conjunct2, THEN conjunct1] cs y1 y2
    by simp
  have r2: "calculate_drorcr_from_config sample_builtins ?rPos ?rule = Inr (PStr ''C'')"
    using C4_drorcr [where rule = ?rule and B = sample_builtins and r = ?rPos and da = ?da
        and x = "Finite 150000", THEN conjunct2, THEN conjunct2, THEN conjunct2, THEN conjunct1]
      n1 da f1
    by simp
  have r3: "calculate_drorcr_from_config sample_builtins ?rNeg ?rule = Inr (PStr ''D'')"
    using C4_drorcr [where rule = ?rule and B = sample_builtins and r = ?rNeg and da = ?da
        and x = "Finite (- 75000)", THEN conjunct2, THEN conjunct2, THEN conjunct2,
        THEN conjunct1] n2 da f2
    by simp
  have r4: "calculate_drorcr_from_config sample_builtins ?rNone ?rule = Inr (PStr ''C'')"
    using C4_drorcr [where rule = ?rule and B = sample_builtins and r = ?rNone and da = ?da,
        THEN conjunct2, THEN conjunct2, THEN conjunct2, THEN conjunct1] n3 da
    by simp
  have r4': "calculate_drorcr_from_config sample_builtins ?rText ?rule = Inr (PStr ''C'')"
    using C4_drorcr [where rule = ?rule and B = sample_builtins and r = ?rText and da = ?da,
        THEN conjunct2, THEN conjunct2, THEN conjunct2, THEN conjunct1] n3' da f3
    by simp
  have r5: "calculate_drorcr_from_config sample_builtins ?rZero ?rule = Inr (PStr ''C'')"
    using C4_drorcr [where rule = ?rule and B = sample_builtins and r = ?rZero and da = ?da,
        THEN conjunct2, THEN conjunct2, THEN conjunct2, THEN conjunct1] n4 da
    by simp
  have r6: "calculate_drorcr_from_config sample_builtins ?rM1 ?rule = Inr (PStr ''D'')"
    using C4_drorcr [where rule = ?rule and B = sample_builtins and r = ?rM1 and da = ?da,
        THEN conjunct2, THEN conjunct2, THEN conjunct2, THEN conjunct1] n5 da
    by simp
  have r7: "calculate_drorcr_from_config sample_builtins ?rNaN ?rule = Inr (PStr ''D'')"
    using C4_drorcr [where rule = ?rule and B = sample_builtins and r = ?rNaN and da = ?da,
        THEN conjunct2, THEN conjunct2, THEN conjunct2, THEN conjunct1] n7 da
    by simp
  have r8: "calculate_drorcr_from_config sample_builtins ?rBig ?rule = Inl OverflowError"
    using C4_drorcr [where rule = ?rule and B = sample_builtins and r = ?rBig and da = ?da
        and n = "- (2 ^ 1024)", THEN conjunct2, THEN conjunct2, THEN conjunct2, THEN conjunct1]
      n8 da f4
    by simp
  have r9: "calculate_drorcr_from_config sample_builtins ?rM1 (sample_drorcr_rule None)
              = Inr (PStr ''C'')"
    using C4_drorcr [where rule = "sample_drorcr_rule None" and B = sample_builtins
        and r = ?rM1, THEN conjunct2, THEN conjunct2, THEN conjunct1] n6 da'
    by simp
  from r1 r2 r3 r4 r4' r5 r6 r7 r8 r9 show ?thesis by simp
qed

section \<open>Balance sign and amounts\<close>

lemma balance_sign_total:
  "calculate_balance_sign_from_config B r rule =
     (case cell_number B (amount_cell r) of
        None \<Rightarrow> Inl OverflowError
      | Some a \<Rightarrow>
          Inr [(''OPBALSIGN'', PStr (if lt0 a then ''D'' else ''C'')),
               (''CLBALSIGN'', PStr (if lt0 a then ''D'' else ''C''))])"
  by (simp add: calculate_balance_sign_from_config_def amount_cell_def currency_flex_jpy
        safe_float_conversion_cell Let_def split: option.splits)

lemma amounts_total:
  "calculate_amounts_from_config B r rule =
     (case cell_number B (amount_cell r) of
        None \<Rightarrow> Inl OverflowError
      | Some a \<Rightarrow>
          Inr [(''AMOUNT'', PFloat (py_abs a)), (''OPBAL'', PFloat a), (''CLBAL'', PFloat a)])"
  by (simp add: calculate_amounts_from_config_def amount_cell_def currency_flex_jpy
        safe_float_conversion_cell Let_def split: option.splits)

text \<open>
  Claim C5. On every row \<^verbatim>\<open>BALANCE_SIGN_CALCULATION\<close> and \<^verbatim>\<open>AMOUNT_CALCULATION\<close> read the
  same amount cell: \<^verbatim>\<open>LCY_FACE_VALUE\<close> when \<^verbatim>\<open>Currency_Flex\<close> is \<^verbatim>\<open>'JPY'\<close>, else \<^verbatim>\<open>FACE_VALUE\<close>.
  When the cell has the number \<open>a\<close>, the first returns \<^verbatim>\<open>OPBALSIGN\<close> and \<^verbatim>\<open>CLBALSIGN\<close>, both
  \<^verbatim>\<open>'D'\<close> if \<open>a\<close> is below 0 and \<^verbatim>\<open>'C'\<close> otherwise, and the second returns \<^verbatim>\<open>AMOUNT\<close> = \<open>|a|\<close>
  and \<^verbatim>\<open>OPBAL\<close> = \<^verbatim>\<open>CLBAL\<close> = \<open>a\<close>; an absent cell, an empty or non-numeric text and zero
  have the number 0.0. With \<^verbatim>\<open>Currency_Flex\<close> = \<^verbatim>\<open>'JPY'\<close> and \<^verbatim>\<open>LCY_FACE_VALUE\<close> = -500 the
  signs are \<^verbatim>\<open>'D'\<close>, \<^verbatim>\<open>AMOUNT\<close> is 500 and \<^verbatim>\<open>OPBAL\<close> = \<^verbatim>\<open>CLBAL\<close> = -500. So far the handlers
  do what the claim says. They do not on a row whose amount cell holds an integer too
  large for a float: the conversion raises \<^verbatim>\<open>OverflowError\<close>, which
  \<^verbatim>\<open>safe_float_conversion\<close> does not catch, and both handlers return no field. The last
  two conjuncts are such a row.
\<close>

theorem C5_balance_sign_and_amounts:
  "calculate_balance_sign_from_config B r rule =
     (case cell_number B (amount_cell r) of
        None \<Rightarrow> Inl OverflowError
      | Some a \<Rightarrow>
          Inr [(''OPBALSIGN'', PStr (if lt0 a then ''D'' else ''C'')),
               (''CLBALSIGN'', PStr (if lt0 a then ''D'' else ''C''))])
   \<and> calculate_amounts_from_config B r rule' =
     (case cell_number B (amount_cell r) of
        None \<Rightarrow> Inl OverflowError
      | Some a \<Rightarrow>
          Inr [(''AMOUNT'', PFloat (py_abs a)), (''OPBAL'', PFloat a), (''CLBAL'', PFloat a)])
   \<and> (cell_number B (amount_cell r) = None) =
       (\<exists>n. amount_cell r = Some (PInt n) \<and> n \<noteq> 0 \<and> float_of_int B n = None)
   \<and> (r ''Currency_Flex'' = Some (PStr ''JPY'')
        \<and> r ''LCY_FACE_VALUE'' = Some (PFloat (Finite (- 500))) \<longrightarrow>
      calculate_balance_sign_from_config B r rule =
        Inr [(''OPBALSIGN'', PStr ''D''), (''CLBALSIGN'', PStr ''D'')]
      \<and> calculate_amounts_from_config B r rule' =
        Inr [(''AMOUNT'', PFloat (Finite 500)), (''OPBAL'', PFloat (Finite (- 500))),
             (''CLBAL'', PFloat (Finite (- 500)))])
   \<and> (r ''Currency_Flex'' \<noteq> Some (PStr ''JPY'')
        \<and> (r ''FACE_VALUE'' = None \<or> r ''FACE_VALUE'' = Some (PStr '''')
            \<or> (\<exists>s. r ''FACE_VALUE'' = Some (PStr s) \<and> float_of_str B s = None)) \<longrightarrow>
      calculate_balance_sign_from_config B r rule =
        Inr [(''OPBALSIGN'', PStr ''C''), (''CLBALSIGN'', PStr ''C'')]
      \<and> calculate_amounts_from_config B r rule' =
        Inr [(''AMOUNT'', PFloat (Finite 0)), (''OPBAL'', PFloat (Finite 0)),
             (''CLBAL'', PFloat (Finite 0))])
   \<and> calculate_balance_sign_from_config sample_builtins
        [''Currency_Flex'' \<mapsto> PStr ''USD'', ''FACE_VALUE'' \<mapsto> PInt (2 ^ 1024)]
        \<lparr>rule_id = ''BALANCE_SIGN_CALCULATION'', output_field = None,
          logic = \<lparr>conditions = [], default_action = None\<rparr>\<rparr>
      = Inl OverflowError
   \<and> calculate_amounts_from_config sample_builtins
        [''Currency_Flex'' \<mapsto> PStr ''USD'', ''FACE_VALUE'' \<mapsto> PInt (2 ^ 1024)]
        \<lparr>rule_id = ''AMOUNT_CALCULATION'', output_field = None,
          logic = \<lparr>conditions = [], default_action = None\<rparr>\<rparr>
      = Inl OverflowError"
proof -
  have none: "(cell_number B (amount_cell r) = None) =
       (\<exists>n. amount_cell r = Some (PInt n) \<and> n \<noteq> 0 \<and> float_of_int B n = None)"
  proof (cases "amount_cell r")
    case None
    then show ?thesis by simp
  next
    case (Some v)
    then show ?thesis by (cases v) (auto split: option.splits)
  qed
  have ex: "r ''Currency_Flex'' = Some (PStr ''JPY'')
        \<and> r ''LCY_FACE_VALUE'' = Some (PFloat (Finite (- 500))) \<longrightarrow>
      calculate_balance_sign_from_config B r rule =
        Inr [(''OPBALSIGN'', PStr ''D''), (''CLBALSIGN'', PStr ''D'')]
      \<and> calculate_amounts_from_config B r rule' =
        Inr [(''AMOUNT'', PFloat (Finite 500)), (''OPBAL'', PFloat (Finite (- 500))),
             (''CLBAL'', PFloat (Finite (- 500)))]"
    by (simp add: balance_sign_total amounts_total amount_cell_def)
  have zero: "r ''Currency_Flex'' \<noteq> Some (PStr ''JPY'')
        \<and> (r ''FACE_VALUE'' = None \<or> r ''FACE_VALUE'' = Some (PStr '''')
            \<or> (\<exists>s. r ''FACE_VALUE'' = Some (PStr s) \<and> float_of_str B s = None)) \<longrightarrow>
      calculate_balance_sign_from_config B r rule =
        Inr [(''OPBALSIGN'', PStr ''C''), (''CLBALSIGN'', PStr ''C'')]
      \<and> calculate_amounts_from_config B r rule' =
        Inr [(''AMOUNT'', PFloat (Finite 0)), (''OPBAL'', PFloat (Finite 0)),
             (''CLBAL'', PFloat (Finite 0))]"
    by (auto simp: balance_sign_total amounts_total amount_cell_def)
  have b1: "calculate_balance_sign_from_config sample_builtins
        [''Currency_Flex'' \<mapsto> PStr ''USD'', ''FACE_VALUE'' \<mapsto> PInt (2 ^ 1024)]
        \<lparr>rule_id = ''BALANCE_SIGN_CALCULATION'', output_field = None,
          logic = \<lparr>conditions = [], default_action = None\<rparr>\<rparr>
      = Inl OverflowError"
    by (simp add: calculate_balance_sign_from_config_def row_get_def safe_float_conversion_def
          sample_builtins_def)
  have b2: "calculate_amounts_from_config sample_builtins
        [''Currency_Flex'' \<mapsto> PStr ''USD'', ''FACE_VALUE'' \<mapsto> PInt (2 ^ 1024)]
        \<lparr>rule_id = ''AMOUNT_CALCULATION'', output_field = None,
          logic = \<lparr>conditions = [], default_action = None\<rparr>\<rparr>
      = Inl OverflowError"
    by (simp add: calculate_amounts_from_config_def row_get_def safe_float_conversion_def
          sample_builtins_def)
  show ?thesis
    by (intro conjI) (rule balance_sign_total amounts_total none ex zero b1 b2)+
qed

text \<open>
  C5 on four rows: a JPY row with the integer -500 (its \<^verbatim>\<open>FACE_VALUE\<close> is not read), a
  JPY row with the float -500.0, a non-JPY row without \<^verbatim>\<open>FACE_VALUE\<close>, and a JPY row whose
  \<^verbatim>\<open>LCY_FACE_VALUE\<close> is NaN.
\<close>

theorem C5_balance_sign_and_amounts_witness:
  "calculate_balance_sign_from_config sample_builtins
       [''Currency_Flex'' \<mapsto> PStr ''JPY'', ''LCY_FACE_VALUE'' \<mapsto> PInt (- 500), ''FACE_VALUE'' \<mapsto> PInt 7]
       \<lparr>rule_id = ''BALANCE_SIGN_CALCULATION'', output_field = None,
         logic = \<lparr>conditions = [], default_action = None\<rparr>\<rparr>
     = Inr [(''OPBALSIGN'', PStr ''D''), (''CLBALSIGN'', PStr ''D'')]
   \<and> calculate_amounts_from_config sample_builtins
       [''Currency_Flex'' \<mapsto> PStr ''JPY'', ''LCY_FACE_VALUE'' \<mapsto> PInt (- 500), ''FACE_VALUE'' \<mapsto> PInt 7]
       \<lparr>rule_id = ''AMOUNT_CALCULATION'', output_field = None,
         logic = \<lparr>conditions = [], default_action = None\<rparr>\<rparr>
     = Inr [(''AMOUNT'', PFloat (Finite 500)), (''OPBAL'', PFloat (Finite (- 500))),
            (''CLBAL'', PFloat (Finite (- 500)))]
   \<and> calculate_amounts_from_config sample_builtins
       [''Currency_Flex'' \<mapsto> PStr ''JPY'', ''LCY_FACE_VALUE'' \<mapsto> PFloat (Finite (- 500))]
       \<lparr>rule_id = ''AMOUNT_CALCULATION'', output_field = None,
         logic = \<lparr>conditions = [], default_action = None\<rparr>\<rparr>
     = Inr [(''AMOUNT'', PFloat (Finite 500)), (''OPBAL'', PFloat (Finite (- 500))),
            (''CLBAL'', PFloat (Finite (- 500)))]
   \<and> calculate_balance_sign_from_config sample_builtins
       [''Currency_Flex'' \<mapsto> PStr ''USD'', ''LCY_FACE_VALUE'' \<mapsto> PInt (- 500)]
       \<lparr>rule_id = ''BALANCE_SIGN_CALCULATION'', output_field = None,
         logic = \<lparr>conditions = [], default_action = None\<rparr>\<rparr>
     = Inr [(''OPBALSIGN'', PStr ''C''), (''CLBALSIGN'', PStr ''C'')]
   \<and> calculate_amounts_from_config sample_builtins
       [''Currency_Flex'' \<mapsto> PStr ''JPY'', ''LCY_FACE_VALUE'' \<mapsto> PFloat NaN]
       \<lparr>rule_id = ''AMOUNT_CALCULATION'', output_field = None,
         logic = \<lparr>conditions = [], default_action = None\<rparr>\<rparr>
     = Inr [(''AMOUNT'', PFloat NaN), (''OPBAL'', PFloat NaN), (''CLBAL'', PFloat NaN)]
   \<and> calculate_balance_sign_from_config sample_builtins
       [''Currency_Flex'' \<mapsto> PStr ''JPY'', ''LCY_FACE_VALUE'' \<mapsto> PFloat NaN]
       \<lparr>rule_id = ''BALANCE_SIGN_CALCULATION'', output_field = None,
         logic = \<lparr>conditions = [], default_action = None\<rparr>\<rparr>
     = Inr [(''OPBALSIGN'', PStr ''C''), (''CLBALSIGN'', PStr ''C'')]"
proof -
  let ?r = "[''Currency_Flex'' \<mapsto> PStr ''JPY'', ''LCY_FACE_VALUE'' \<mapsto> PInt (- 500), ''FACE_VALUE'' \<mapsto> PInt 7]"
  let ?r' = "[''Currency_Flex'' \<mapsto> PStr ''USD'', ''LCY_FACE_VALUE'' \<mapsto> PInt (- 500)]"
  let ?r'' = "[''Currency_Flex'' \<mapsto> PStr ''JPY'', ''LCY_FACE_VALUE'' \<mapsto> PFloat (Finite (- 500))]"
  let ?rn = "[''Currency_Flex'' \<mapsto> PStr ''JPY'', ''LCY_FACE_VALUE'' \<mapsto> PFloat NaN]"
  let ?sign = "\<lparr>rule_id = ''BALANCE_SIGN_CALCULATION'', output_field = None,
          logic = \<lparr>conditions = [], default_action = None\<rparr>\<rparr>"
  let ?amt = "\<lparr>rule_id = ''AMOUNT_CALCULATION'', output_field = None,
          logic = \<lparr>conditions = [], default_action = None\<rparr>\<rparr>"
  have a: "cell_number sample_builtins (amount_cell ?r) = Some (Finite (- 500))"
    by (simp add: amount_cell_def sample_builtins_def)
  have b: "?r' ''Currency_Flex'' \<noteq> Some (PStr ''JPY'') \<and> ?r' ''FACE_VALUE'' = None"
    by simp
  have c: "?r'' ''Currency_Flex'' = Some (PStr ''JPY'')
      \<and> ?r'' ''LCY_FACE_VALUE'' = Some (PFloat (Finite (- 500)))"
    by simp
  have d: "cell_number sample_builtins (amount_cell ?rn) = Some NaN"
    by (simp add: amount_cell_def)
  have r1: "calculate_balance_sign_from_config sample_builtins ?r ?sign
      = Inr [(''OPBALSIGN'', PStr ''D''), (''CLBALSIGN'', PStr ''D'')]"
    using C5_balance_sign_and_amounts [where B = sample_builtins and r = ?r and rule = ?sign
        and rule' = ?amt, THEN conjunct1] a
    by simp
  have r2: "calculate_amounts_from_config sample_builtins ?r ?amt
      = Inr [(''AMOUNT'', PFloat (Finite 500)), (''OPBAL'', PFloat (Finite (- 500))),
             (''CLBAL'', PFloat (Finite (- 500)))]"
    using C5_balance_sign_and_amounts [where B = sample_builtins and r = ?r and rule = ?sign
        and rule' = ?amt, THEN conjunct2, THEN conjunct1] a
    by simp
  note r3 = C5_balance_sign_and_amounts [where B = sample_builtins and r = ?r'' and rule = ?sign
      and rule' = ?amt, THEN conjunct2, THEN conjunct2, THEN conjunct2, THEN conjunct1,
      THEN mp, OF c, THEN conjunct2]
  have b': "?r' ''Currency_Flex'' \<noteq> Some (PStr ''JPY'')
        \<and> (?r' ''FACE_VALUE'' = None \<or> ?r' ''FACE_VALUE'' = Some (PStr '''')
            \<or> (\<exists>s. ?r' ''FACE_VALUE'' = Some (PStr s) \<and> float_of_str sample_builtins s = None))"
    using b by simp
  note r4 = C5_balance_sign_and_amounts [where B = sample_builtins and r = ?r' and rule = ?sign
      and rule' = ?amt, THEN conjunct2, THEN conjunct2, THEN conjunct2, THEN conjunct2,
      THEN conjunct1, THEN mp, OF b', THEN conjunct1]
  have r5: "calculate_amounts_from_config sample_builtins ?rn ?amt
      = Inr [(''AMOUNT'', PFloat NaN), (''OPBAL'', PFloat NaN), (''CLBAL'', PFloat NaN)]"
    using C5_balance_sign_and_amounts [where B = sample_builtins and r = ?rn and rule = ?sign
        and rule' = ?amt, THEN conjunct2, THEN conjunct1] d
    by simp
  have r6: "calculate_balance_sign_from_config sample_builtins ?rn ?sign
      = Inr [(''OPBALSIGN'', PStr ''C''), (''CLBALSIGN'', PStr ''C'')]"
    using C5_balance_sign_and_amounts [where B = sample_builtins and r = ?rn and rule = ?sign
        and rule' = ?amt, THEN conjunct1] d
    by simp
  from r1 r2 r3 r4 r5 r6 show ?thesis by simp
qed

section \<open>Date formatting\<close>

lemma try_formats_first:
  "i < length fmts \<Longrightarrow> strptime s (fmts ! i) = Some dt \<Longrightarrow>
   (\<forall>j < i. strptime s (fmts ! j) = None) \<Longrightarrow> try_formats B s fmts = Some (strftime_Ymd B dt)"
proof (induction fmts arbitrary: i)
  case Nil
  then show ?case by simp
next
  case (Cons f fs)
  show ?case
  proof (cases i)
    case 0
    with Cons.prems show ?thesis by simp
  next
    case (Suc k)
    with Cons.prems have f: "strptime s f = None" by auto
    from Suc Cons.prems have "\<forall>j < k. strptime s (fs ! j) = None" by auto
    with Suc Cons.prems Cons.IH [of k] f show ?thesis by simp
  qed
qed

lemma try_formats_none:
  "(\<forall>fmt \<in> set fmts. strptime s fmt = None) \<Longrightarrow> try_formats B s fmts = None"
  by (induction fmts) auto

lemmas date_defs = format_date_def date_formats_def strptime_def pd_isna_def is_digit_def
  char_in_def int_of_text_def valid_date_def days_in_month_def is_leap_def field_of_def
  strftime_Ymd_def zfill_def dec_digits.simps digit_char_def sample_builtins_def
  padding_builtins_def

lemma strptime_valid: "strptime s fmt = Some dt \<Longrightarrow> valid_date dt"
  by (auto simp: strptime_def Let_def split: option.splits if_splits prod.splits)

lemma try_formats_Some:
  "try_formats B s fmts = Some out \<Longrightarrow> \<exists>fmt dt. strptime s fmt = Some dt \<and> out = strftime_Ymd B dt"
  by (induction fmts) (auto split: option.splits)

subsection \<open>The digits of a date\<close>

lemma replicate_small:
  "replicate 2 c = [c, c]" "replicate 3 c = [c, c, c]"
  by (simp_all add: numeral_2_eq_2 numeral_3_eq_3)

lemma div10_less: "n < 10 * k \<Longrightarrow> n div 10 < (k::nat)"
  by (simp add: less_mult_imp_div_less mult.commute)

lemma div10_ge: "10 * k \<le> n \<Longrightarrow> (k::nat) \<le> n div 10"
  using div_le_mono [of "10 * k" n 10] by simp

lemma digit_char_props:
  "d < 10 \<Longrightarrow> is_digit (digit_char d) \<and> (of_char (digit_char d) :: nat) - 48 = d"
proof -
  assume "d < 10"
  then have "d \<in> {0, 1, 2, 3, 4, 5, 6, 7, 8, 9}" by auto
  then show ?thesis
    by (elim insertE) (simp_all add: digit_char_def is_digit_def char_in_def)
qed

lemma digits2:
  "n < 100 \<Longrightarrow> zfill 2 (dec_digits n) = [digit_char (n div 10), digit_char (n mod 10)]"
proof (cases "n < 10")
  case True
  then show ?thesis by (simp add: dec_digits.simps [of n] zfill_def digit_char_def replicate_small)
next
  case False
  assume "n < 100"
  then have "n div 10 < 10" using div10_less [of n 10] by simp
  with False show ?thesis
    by (simp add: dec_digits.simps [of n] dec_digits.simps [of "n div 10"] zfill_def)
qed

lemma digits4:
  "n < 10000 \<Longrightarrow> zfill 4 (dec_digits n) =
     [digit_char (n div 1000), digit_char (n div 100 mod 10), digit_char (n div 10 mod 10),
      digit_char (n mod 10)]"
proof -
  assume n: "n < 10000"
  have z: "digit_char 0 = CHR ''0''" by (simp add: digit_char_def)
  have d2: "n div 10 div 10 = n div 100" and d3: "n div 100 div 10 = n div 1000"
    by (simp_all add: div_mult2_eq [symmetric])
  consider "n < 10" | "10 \<le> n \<and> n < 100" | "100 \<le> n \<and> n < 1000" | "1000 \<le> n" by linarith
  then show ?thesis
  proof cases
    case 1
    then show ?thesis by (simp add: dec_digits.simps [of n] zfill_def z replicate_small)
  next
    case 2
    then have a: "n div 10 < 10" using div10_less [of n 10] by simp
    from 2 have "n div 100 = 0" "n div 1000 = 0" by simp_all
    with 2 a show ?thesis
      by (simp add: dec_digits.simps [of n] dec_digits.simps [of "n div 10"] zfill_def z
            replicate_small)
  next
    case 3
    then have a: "n div 10 < 100" using div10_less [of n 100] by simp
    then have b: "n div 100 < 10" using div10_less [of "n div 10" 10] d2 by simp
    from 3 have c: "\<not> n div 10 < 10" using div10_ge [of 10 n] by simp
    from 3 have "n div 1000 = 0" by simp
    with 3 a b c show ?thesis
      by (simp add: dec_digits.simps [of n] dec_digits.simps [of "n div 10"]
            dec_digits.simps [of "n div 100"] zfill_def z d2)
  next
    case 4
    from n have a: "n div 10 < 1000" using div10_less [of n 1000] by simp
    then have b: "n div 100 < 100" using div10_less [of "n div 10" 100] d2 by simp
    then have c: "n div 1000 < 10" using div10_less [of "n div 100" 10] d3 by simp
    from 4 have e: "\<not> n div 10 < 10" using div10_ge [of 100 n] by simp
    from 4 have "10 \<le> n div 10 div 10" using div10_ge [of 100 n] div10_ge [of 10 "n div 10"] by simp
    then have f: "\<not> n div 100 < 10" using d2 by simp
    from 4 a b c e f show ?thesis
      by (simp add: dec_digits.simps [of n] dec_digits.simps [of "n div 10"]
            dec_digits.simps [of "n div 100"] dec_digits.simps [of "n div 1000"] zfill_def d2 d3)
  qed
qed

text \<open>
  A year from 1000 on has at least four digits, so that padding does not change it; a
  year below 1000 has at most three.
\<close>

lemma dec_digits_nonempty: "dec_digits n \<noteq> []"
  by (subst dec_digits.simps) simp

lemma dec_digits_long: "1000 \<le> n \<Longrightarrow> zfill 4 (dec_digits n) = dec_digits n"
proof -
  assume n: "1000 \<le> n"
  have d2: "n div 10 div 10 = n div 100"
    by (simp add: div_mult2_eq [symmetric])
  from n have a: "\<not> n < 10" by simp
  from n have b: "\<not> n div 10 < 10" using div10_ge [of 100 n] by simp
  from n have "10 \<le> n div 10 div 10" using div10_ge [of 100 n] div10_ge [of 10 "n div 10"] by simp
  then have c: "\<not> n div 100 < 10" using d2 by simp
  have "1 \<le> length (dec_digits (n div 100 div 10))"
    using dec_digits_nonempty [of "n div 100 div 10"] by (simp add: Suc_le_eq)
  then have "4 \<le> length (dec_digits n)"
    using a b c
    by (simp add: dec_digits.simps [of n] dec_digits.simps [of "n div 10"]
          dec_digits.simps [of "n div 100"] d2)
  then show ?thesis by (simp add: zfill_def)
qed

lemma dec_digits_short: "n < 1000 \<Longrightarrow> length (dec_digits n) \<le> 3"
proof -
  assume n: "n < 1000"
  have d2: "n div 10 div 10 = n div 100"
    by (simp add: div_mult2_eq [symmetric])
  from n have "n div 10 < 100" using div10_less [of n 100] by simp
  then have b: "n div 100 < 10" using div10_less [of "n div 10" 10] d2 by simp
  show ?thesis
    using b
    by (simp add: dec_digits.simps [of n] dec_digits.simps [of "n div 10"]
          dec_digits.simps [of "n div 100"] d2)
qed

lemma strftime_padded:
  "pads_year B \<or> 1000 \<le> year dt \<Longrightarrow>
   strftime_Ymd B dt = zfill 4 (dec_digits (year dt)) @ zfill 2 (dec_digits (month dt))
     @ zfill 2 (dec_digits (day dt))"
  by (auto simp: strftime_Ymd_def dec_digits_long)

lemma strftime_unpadded:
  "\<not> pads_year B \<Longrightarrow>
   strftime_Ymd B dt = dec_digits (year dt) @ zfill 2 (dec_digits (month dt))
     @ zfill 2 (dec_digits (day dt))"
  by (simp add: strftime_Ymd_def)

lemma length_strftime:
  "valid_date dt \<Longrightarrow> pads_year B \<or> 1000 \<le> year dt \<Longrightarrow> length (strftime_Ymd B dt) = 8"
proof -
  assume "valid_date dt" and p: "pads_year B \<or> 1000 \<le> year dt"
  then have "year dt < 10000" "month dt < 100" "day dt < 100"
    by (auto simp: valid_date_def days_in_month_def split: if_splits)
  then show ?thesis
    by (simp add: strftime_padded [OF p] digits4 digits2)
qed

lemma length_strftime_short:
  "valid_date dt \<Longrightarrow> \<not> pads_year B \<Longrightarrow> year dt < 1000 \<Longrightarrow> length (strftime_Ymd B dt) < 8"
proof -
  assume "valid_date dt" and p: "\<not> pads_year B" and y: "year dt < 1000"
  then have "month dt < 100" "day dt < 100"
    by (auto simp: valid_date_def days_in_month_def split: if_splits)
  then show ?thesis
    using dec_digits_short [OF y] by (simp add: strftime_unpadded [OF p] digits2)
qed

lemma int_of_text2:
  "a < 10 \<Longrightarrow> b < 10 \<Longrightarrow> int_of_text [digit_char a, digit_char b] = 10 * a + b"
  using digit_char_props [of a] digit_char_props [of b]
  by (simp add: int_of_text_def)

lemma int_of_text4:
  "a < 10 \<Longrightarrow> b < 10 \<Longrightarrow> c < 10 \<Longrightarrow> d < 10 \<Longrightarrow>
   int_of_text [digit_char a, digit_char b, digit_char c, digit_char d]
     = 10 * (10 * (10 * a + b) + c) + d"
  using digit_char_props [of a] digit_char_props [of b] digit_char_props [of c]
    digit_char_props [of d]
  by (simp add: int_of_text_def)

lemma split4:
  "(n::nat) = 10 * (10 * (10 * (n div 1000) + n div 100 mod 10) + n div 10 mod 10) + n mod 10"
proof -
  have d2: "n div 10 div 10 = n div 100" and d3: "n div 100 div 10 = n div 1000"
    by (simp_all add: div_mult2_eq [symmetric])
  have "n = 10 * (n div 10) + n mod 10" by simp
  moreover have "n div 10 = 10 * (n div 100) + n div 10 mod 10"
    using div_mult_mod_eq [of "n div 10" 10] d2 by simp
  moreover have "n div 100 = 10 * (n div 1000) + n div 100 mod 10"
    using div_mult_mod_eq [of "n div 100" 10] d3 by simp
  ultimately show ?thesis by simp
qed

subsection \<open>Parsing a formatted date again\<close>

lemma month_cases:
  "1 \<le> m \<Longrightarrow> m \<le> 12 \<Longrightarrow> m \<in> {1, 2, 3, 4, 5, 6, 7, 8, 9, 10, 11, 12::nat}"
  by (auto simp: eval_nat_numeral le_Suc_eq)

lemma day_cases:
  "1 \<le> d \<Longrightarrow> d \<le> 31 \<Longrightarrow>
   d \<in> {1, 2, 3, 4, 5, 6, 7, 8, 9, 10, 11, 12, 13, 14, 15, 16, 17, 18, 19, 20, 21, 22, 23,
         24, 25, 26, 27, 28, 29, 30, 31::nat}"
  by (auto simp: eval_nat_numeral le_Suc_eq)

lemma alts_month:
  assumes "1 \<le> m" "m \<le> 12"
  shows "\<exists>more. alts DirM (digit_char (m div 10) # digit_char (m mod 10) # rest)
           = ([digit_char (m div 10), digit_char (m mod 10)], rest) # more"
    and "digit_char (m div 10) \<noteq> CHR ''-''"
  using month_cases [OF assms]
  by (elim insertE; simp add: digit_char_def char_in_def)+

lemma alts_day:
  assumes "1 \<le> d" "d \<le> 31"
  shows "\<exists>more. alts DirD (digit_char (d div 10) # digit_char (d mod 10) # rest)
           = ([digit_char (d div 10), digit_char (d mod 10)], rest) # more"
  using day_cases [OF assms]
  by (elim insertE; simp add: digit_char_def char_in_def is_digit_def)

lemma rmatch_Ymd:
  assumes v: "valid_date dt" and p: "pads_year B \<or> 1000 \<le> year dt"
  shows "rmatch [DirY, DirM, DirD] (strftime_Ymd B dt)
    = Some ([(DirY, zfill 4 (dec_digits (year dt))), (DirM, zfill 2 (dec_digits (month dt))),
             (DirD, zfill 2 (dec_digits (day dt)))], [])"
    and "rmatch [DirY, Lit (CHR ''-''), DirM, Lit (CHR ''-''), DirD] (strftime_Ymd B dt) = None"
proof -
  from v have y: "year dt < 10000" and m: "1 \<le> month dt" "month dt \<le> 12"
    and d: "1 \<le> day dt" "day dt \<le> 31"
    by (auto simp: valid_date_def days_in_month_def split: if_splits)
  from m d have m100: "month dt < 100" and d100: "day dt < 100" by simp_all
  let ?Y = "zfill 4 (dec_digits (year dt))"
  let ?M = "zfill 2 (dec_digits (month dt))"
  let ?D = "zfill 2 (dec_digits (day dt))"
  have yd: "year dt div 1000 < 10"
    using div10_less [of "year dt" 1000] div10_less [of "year dt div 10" 100]
      div10_less [of "year dt div 100" 10] y
    by (simp add: div_mult2_eq [symmetric])
  have aY: "alts DirY (?Y @ rest) = [(?Y, rest)]" for rest
    using digit_char_props [of "year dt div 1000"] digit_char_props [of "year dt div 100 mod 10"]
      digit_char_props [of "year dt div 10 mod 10"] digit_char_props [of "year dt mod 10"] yd
    by (simp add: digits4 [OF y])
  obtain more where aM: "alts DirM (?M @ ?D) = (?M, ?D) # more"
    using alts_month(1) [OF m, of ?D] by (auto simp: digits2 [OF m100])
  obtain more' where aD: "alts DirD (?D @ []) = (?D, []) # more'"
    using alts_day [OF d, of "[]"] by (auto simp: digits2 [OF d100])
  have s: "strftime_Ymd B dt = ?Y @ ?M @ ?D"
    by (rule strftime_padded [OF p])
  show "rmatch [DirY, DirM, DirD] (strftime_Ymd B dt)
    = Some ([(DirY, ?Y), (DirM, ?M), (DirD, ?D)], [])"
    unfolding s using aD aM by (simp add: aY del: alts.simps)
  have "alts (Lit (CHR ''-'')) (?M @ ?D) = []"
    using alts_month(2) [OF m] by (simp add: digits2 [OF m100])
  then show "rmatch [DirY, Lit (CHR ''-''), DirM, Lit (CHR ''-''), DirD] (strftime_Ymd B dt) = None"
    unfolding s by (simp add: aY del: alts.simps)
qed

lemma strptime_strftime:
  assumes v: "valid_date dt" and p: "pads_year B \<or> 1000 \<le> year dt"
  shows "strptime (strftime_Ymd B dt) ''%Y%m%d'' = Some dt"
    and "strptime (strftime_Ymd B dt) ''%Y-%m-%d'' = None"
proof -
  from v have y: "year dt < 10000" and m: "month dt < 100" and d: "day dt < 100"
    by (auto simp: valid_date_def days_in_month_def split: if_splits)
  have yd: "year dt div 1000 < 10"
    using div10_less [of "year dt" 1000] div10_less [of "year dt div 10" 100]
      div10_less [of "year dt div 100" 10] y
    by (simp add: div_mult2_eq [symmetric])
  have iy: "int_of_text (zfill 4 (dec_digits (year dt))) = year dt"
    using int_of_text4 [of "year dt div 1000" "year dt div 100 mod 10" "year dt div 10 mod 10"
        "year dt mod 10"] yd split4 [of "year dt"]
    by (simp add: digits4 [OF y])
  have im: "int_of_text (zfill 2 (dec_digits (month dt))) = month dt"
    using int_of_text2 [of "month dt div 10" "month dt mod 10"] div10_less [of "month dt" 10] m
    by (simp add: digits2 [OF m])
  have id: "int_of_text (zfill 2 (dec_digits (day dt))) = day dt"
    using int_of_text2 [of "day dt div 10" "day dt mod 10"] div10_less [of "day dt" 10] d
    by (simp add: digits2 [OF d])
  have pf: "parse_format ''%Y%m%d'' = Some [DirY, DirM, DirD]"
    and pf': "parse_format ''%Y-%m-%d'' = Some [DirY, Lit (CHR ''-''), DirM, Lit (CHR ''-''), DirD]"
    by simp_all
  have sur: "\<lparr>year = year dt, month = month dt, day = day dt\<rparr> = dt"
    by (cases dt) simp
  show "strptime (strftime_Ymd B dt) ''%Y%m%d'' = Some dt"
    using v
    by (simp add: strptime_def pf rmatch_Ymd(1) [OF v p] field_of_def iy im id sur Let_def
          del: rmatch.simps)
  show "strptime (strftime_Ymd B dt) ''%Y-%m-%d'' = None"
    by (simp add: strptime_def pf' rmatch_Ymd(2) [OF v p] del: rmatch.simps)
qed

lemma format_date_strftime:
  assumes v: "valid_date dt" and p: "pads_year B \<or> 1000 \<le> year dt"
  shows "format_date B (PStr (strftime_Ymd B dt)) = strftime_Ymd B dt"
proof -
  have "length (strftime_Ymd B dt) = 8" using v p by (rule length_strftime)
  then have "strftime_Ymd B dt \<noteq> []" by auto
  then show ?thesis
    by (simp add: format_date_def pd_isna_def date_formats_def strptime_strftime [OF v p])
qed

text \<open>
  The fallback is not idempotent in general: of a text that no format parses, the first
  8 characters may be a date.
\<close>

lemma format_date_fallback_twice:
  "format_date B (PStr ''2023-9-1 (est.)'') = ''2023-9-1''"
  "format_date B (PStr ''2023-9-1'') = ''20230901''"
  by (cases "pads_year B"; simp add: date_defs)+

text \<open>
  Claim C6. The formats are tried in the order \<^verbatim>\<open>%Y-%m-%d\<close>, \<^verbatim>\<open>%Y%m%d\<close>, \<^verbatim>\<open>%d/%m/%Y\<close>,
  \<^verbatim>\<open>%m/%d/%Y\<close>. For a value that is true and not NaN: when format number \<open>i\<close> is the first
  that parses the text of the value, the result is what \<^verbatim>\<open>strftime('%Y%m%d')\<close> writes for
  the parsed date; when no format parses it, the result is the first 8 characters of the
  text. A value that is false (the empty text, which also stands for a missing field) or
  NaN gives the empty text. On the listed examples: \<^verbatim>\<open>'20230901'\<close> and \<^verbatim>\<open>'2023-09-01'\<close>
  give \<^verbatim>\<open>'20230901'\<close>, \<^verbatim>\<open>'abcdefgh'\<close> gives \<^verbatim>\<open>'abcdefgh'\<close>, and formatting each of these
  results again returns it unchanged. So far the formatter does what the claim says.

  What \<^verbatim>\<open>strftime\<close> writes is YYYYMMDD, 8 characters that the formatter returns unchanged
  when it formats them again, for a year from 1000 on, and for every year where the
  platform writes the year on four digits. Where it does not (CPython 3.11 on Linux), a
  date with a year below 1000 is not re-emitted as YYYYMMDD: the year has no leading
  zeros and the result has fewer than 8 characters. The last three conjuncts are the
  date \<^verbatim>\<open>'0999-01-01'\<close>: it gives \<^verbatim>\<open>'9990101'\<close>, which the formatter reads as the first of
  October 9990 when it formats it again; on a platform that pads the year it gives
  \<^verbatim>\<open>'09990101'\<close>.
\<close>

theorem C6_format_date:
  "date_formats = [''%Y-%m-%d'', ''%Y%m%d'', ''%d/%m/%Y'', ''%m/%d/%Y'']
   \<and> (truthy v \<and> \<not> pd_isna v \<and> i < length date_formats
        \<and> strptime (py_str B v) (date_formats ! i) = Some dt
        \<and> (\<forall>j < i. strptime (py_str B v) (date_formats ! j) = None) \<longrightarrow>
      format_date B v = strftime_Ymd B dt
      \<and> (pads_year B \<or> 1000 \<le> year dt \<longrightarrow>
           format_date B v = zfill 4 (dec_digits (year dt)) @ zfill 2 (dec_digits (month dt))
             @ zfill 2 (dec_digits (day dt))
           \<and> length (format_date B v) = 8
           \<and> format_date B (PStr (format_date B v)) = format_date B v)
      \<and> (\<not> pads_year B \<and> year dt < 1000 \<longrightarrow>
           format_date B v = dec_digits (year dt) @ zfill 2 (dec_digits (month dt))
             @ zfill 2 (dec_digits (day dt))
           \<and> length (format_date B v) < 8))
   \<and> (truthy v \<and> \<not> pd_isna v
        \<and> (\<forall>fmt \<in> set date_formats. strptime (py_str B v) fmt = None) \<longrightarrow>
      format_date B v = take 8 (py_str B v))
   \<and> (\<not> truthy v \<or> pd_isna v \<longrightarrow> format_date B v = '''')
   \<and> format_date B (PStr '''') = '''' \<and> format_date B (PFloat NaN) = ''''
   \<and> format_date B (row_get Map.empty k (PStr '''')) = ''''
   \<and> format_date B (PStr ''20230901'') = ''20230901''
   \<and> format_date B (PStr ''2023-09-01'') = ''20230901''
   \<and> format_date B (PStr ''abcdefgh'') = ''abcdefgh''
   \<and> format_date B (PStr (format_date B (PStr ''20230901''))) = format_date B (PStr ''20230901'')
   \<and> format_date B (PStr (format_date B (PStr ''2023-09-01''))) = format_date B (PStr ''2023-09-01'')
   \<and> format_date B (PStr (format_date B (PStr ''abcdefgh''))) = format_date B (PStr ''abcdefgh'')
   \<and> format_date sample_builtins (PStr ''0999-01-01'') = ''9990101''
   \<and> format_date sample_builtins (PStr ''9990101'') = ''99901001''
   \<and> format_date padding_builtins (PStr ''0999-01-01'') = ''09990101''"
proof -
  have e1: "format_date B (PStr ''20230901'') = ''20230901''"
    by (cases "pads_year B") (simp_all add: date_defs)
  have e2: "format_date B (PStr ''2023-09-01'') = ''20230901''"
    by (cases "pads_year B") (simp_all add: date_defs)
  have e3: "format_date B (PStr ''abcdefgh'') = ''abcdefgh''"
    by (simp add: date_defs)
  have f: "truthy v \<and> \<not> pd_isna v \<and> i < length date_formats
        \<and> strptime (py_str B v) (date_formats ! i) = Some dt
        \<and> (\<forall>j < i. strptime (py_str B v) (date_formats ! j) = None) \<longrightarrow>
      format_date B v = strftime_Ymd B dt
      \<and> (pads_year B \<or> 1000 \<le> year dt \<longrightarrow>
           format_date B v = zfill 4 (dec_digits (year dt)) @ zfill 2 (dec_digits (month dt))
             @ zfill 2 (dec_digits (day dt))
           \<and> length (format_date B v) = 8
           \<and> format_date B (PStr (format_date B v)) = format_date B v)
      \<and> (\<not> pads_year B \<and> year dt < 1000 \<longrightarrow>
           format_date B v = dec_digits (year dt) @ zfill 2 (dec_digits (month dt))
             @ zfill 2 (dec_digits (day dt))
           \<and> length (format_date B v) < 8)"
  proof (intro impI)
    assume h: "truthy v \<and> \<not> pd_isna v \<and> i < length date_formats
        \<and> strptime (py_str B v) (date_formats ! i) = Some dt
        \<and> (\<forall>j < i. strptime (py_str B v) (date_formats ! j) = None)"
    then have r: "format_date B v = strftime_Ymd B dt"
      using try_formats_first [of i date_formats "py_str B v" dt B]
      by (auto simp: format_date_def)
    from h have vd: "valid_date dt" by (blast intro: strptime_valid)
    have pad: "pads_year B \<or> 1000 \<le> year dt \<longrightarrow>
           format_date B v = zfill 4 (dec_digits (year dt)) @ zfill 2 (dec_digits (month dt))
             @ zfill 2 (dec_digits (day dt))
           \<and> length (format_date B v) = 8
           \<and> format_date B (PStr (format_date B v)) = format_date B v"
    proof
      assume p: "pads_year B \<or> 1000 \<le> year dt"
      show "format_date B v = zfill 4 (dec_digits (year dt)) @ zfill 2 (dec_digits (month dt))
             @ zfill 2 (dec_digits (day dt))
           \<and> length (format_date B v) = 8
           \<and> format_date B (PStr (format_date B v)) = format_date B v"
        unfolding r
        using strftime_padded [OF p] length_strftime [OF vd p] format_date_strftime [OF vd p]
        by simp
    qed
    have nopad: "\<not> pads_year B \<and> year dt < 1000 \<longrightarrow>
           format_date B v = dec_digits (year dt) @ zfill 2 (dec_digits (month dt))
             @ zfill 2 (dec_digits (day dt))
           \<and> length (format_date B v) < 8"
    proof
      assume q: "\<not> pads_year B \<and> year dt < 1000"
      then show "format_date B v = dec_digits (year dt) @ zfill 2 (dec_digits (month dt))
             @ zfill 2 (dec_digits (day dt))
           \<and> length (format_date B v) < 8"
        unfolding r
        using strftime_unpadded [of B dt] length_strftime_short [OF vd, of B]
        by simp
    qed
    from r pad nopad
    show "format_date B v = strftime_Ymd B dt
      \<and> (pads_year B \<or> 1000 \<le> year dt \<longrightarrow>
           format_date B v = zfill 4 (dec_digits (year dt)) @ zfill 2 (dec_digits (month dt))
             @ zfill 2 (dec_digits (day dt))
           \<and> length (format_date B v) = 8
           \<and> format_date B (PStr (format_date B v)) = format_date B v)
      \<and> (\<not> pads_year B \<and> year dt < 1000 \<longrightarrow>
           format_date B v = dec_digits (year dt) @ zfill 2 (dec_digits (month dt))
             @ zfill 2 (dec_digits (day dt))
           \<and> length (format_date B v) < 8)"
      by blast
  qed
  have n: "truthy v \<and> \<not> pd_isna v
        \<and> (\<forall>fmt \<in> set date_formats. strptime (py_str B v) fmt = None) \<longrightarrow>
      format_date B v = take 8 (py_str B v)"
    using try_formats_none [of date_formats "py_str B v" B]
    by (auto simp: format_date_def)
  have z: "\<not> truthy v \<or> pd_isna v \<longrightarrow> format_date B v = ''''"
    by (auto simp: format_date_def)
  have z1: "format_date B (PStr '''') = ''''"
    and z2: "format_date B (PFloat NaN) = ''''"
    and z3: "format_date B (row_get Map.empty k (PStr '''')) = ''''"
    by (simp_all add: format_date_def pd_isna_def row_get_def)
  have i1: "format_date B (PStr (format_date B (PStr ''20230901''))) = format_date B (PStr ''20230901'')"
    and i2: "format_date B (PStr (format_date B (PStr ''2023-09-01''))) = format_date B (PStr ''2023-09-01'')"
    and i3: "format_date B (PStr (format_date B (PStr ''abcdefgh''))) = format_date B (PStr ''abcdefgh'')"
    by (simp_all add: e1 e2 e3)
  have df: "date_formats = [''%Y-%m-%d'', ''%Y%m%d'', ''%d/%m/%Y'', ''%m/%d/%Y'']"
    by (simp add: date_formats_def)
  have b1: "format_date sample_builtins (PStr ''0999-01-01'') = ''9990101''"
    by (simp add: date_defs)
  have b2: "format_date sample_builtins (PStr ''9990101'') = ''99901001''"
    by (simp add: date_defs)
  have b3: "format_date padding_builtins (PStr ''0999-01-01'') = ''09990101''"
    by (simp add: date_defs)
  show ?thesis
    by (intro conjI) (rule df f n z z1 z2 z3 e1 e2 e3 i1 i2 i3 b1 b2 b3)+
qed

text \<open>
  C6 on a day-first date, which the third format is the first to parse; on a text that
  no format parses (February has no 30th day, and a time follows); on the number 0; and
  on a day-first date of the year 50, with and without padding of the year.
\<close>

theorem C6_format_date_witness:
  "format_date sample_builtins (PStr ''13/09/2023'') = ''20230913''
   \<and> length (format_date sample_builtins (PStr ''13/09/2023'')) = 8
   \<and> format_date sample_builtins (PStr (format_date sample_builtins (PStr ''13/09/2023'')))
       = format_date sample_builtins (PStr ''13/09/2023'')
   \<and> format_date sample_builtins (PStr ''2023-02-30 00:00'') = ''2023-02-''
   \<and> format_date sample_builtins (PInt 0) = ''''
   \<and> format_date padding_builtins (PStr ''01/02/0050'') = ''00500201''
   \<and> length (format_date padding_builtins (PStr ''01/02/0050'')) = 8
   \<and> format_date padding_builtins (PStr (format_date padding_builtins (PStr ''01/02/0050'')))
       = format_date padding_builtins (PStr ''01/02/0050'')
   \<and> format_date sample_builtins (PStr ''01/02/0050'') = ''500201''
   \<and> length (format_date sample_builtins (PStr ''01/02/0050'')) < 8"
proof -
  let ?v = "PStr ''13/09/2023''"
  let ?w = "PStr ''2023-02-30 00:00''"
  let ?u = "PStr ''01/02/0050''"
  let ?dt = "\<lparr>year = 2023, month = 9, day = 13\<rparr>"
  let ?du = "\<lparr>year = 50, month = 2, day = 1\<rparr>"
  have a: "truthy ?v \<and> \<not> pd_isna ?v \<and> 2 < length date_formats
       \<and> strptime (py_str sample_builtins ?v) (date_formats ! 2) = Some ?dt
       \<and> (\<forall>j < 2. strptime (py_str sample_builtins ?v) (date_formats ! j) = None)"
    by (simp add: date_defs less_2_cases_iff)
  have b: "truthy ?w \<and> \<not> pd_isna ?w
       \<and> (\<forall>fmt \<in> set date_formats. strptime (py_str sample_builtins ?w) fmt = None)"
    by (simp add: date_defs)
  have c: "\<not> truthy (PInt 0) \<or> pd_isna (PInt 0)"
    by simp
  have d: "truthy ?u \<and> \<not> pd_isna ?u \<and> 2 < length date_formats
       \<and> strptime (py_str padding_builtins ?u) (date_formats ! 2) = Some ?du
       \<and> (\<forall>j < 2. strptime (py_str padding_builtins ?u) (date_formats ! j) = None)"
    by (simp add: date_defs less_2_cases_iff)
  have e: "truthy ?u \<and> \<not> pd_isna ?u \<and> 2 < length date_formats
       \<and> strptime (py_str sample_builtins ?u) (date_formats ! 2) = Some ?du
       \<and> (\<forall>j < 2. strptime (py_str sample_builtins ?u) (date_formats ! j) = None)"
    by (simp add: date_defs less_2_cases_iff)
  have p: "pads_year padding_builtins" "\<not> pads_year sample_builtins"
    by (simp_all add: padding_builtins_def sample_builtins_def)
  have y: "1000 \<le> year ?dt" "year ?du < 1000"
    by simp_all
  have s: "zfill 4 (dec_digits (year ?dt)) @ zfill 2 (dec_digits (month ?dt))
             @ zfill 2 (dec_digits (day ?dt)) = ''20230913''"
    "zfill 4 (dec_digits (year ?du)) @ zfill 2 (dec_digits (month ?du))
             @ zfill 2 (dec_digits (day ?du)) = ''00500201''"
    "dec_digits (year ?du) @ zfill 2 (dec_digits (month ?du))
             @ zfill 2 (dec_digits (day ?du)) = ''500201''"
    by (simp_all add: zfill_def dec_digits.simps digit_char_def replicate_small)
  note t1 = C6_format_date [where B = sample_builtins and v = ?v and i = 2 and dt = ?dt,
      THEN conjunct2, THEN conjunct1, THEN mp, OF a]
  note t2 = C6_format_date [where B = sample_builtins and v = ?w,
      THEN conjunct2, THEN conjunct2, THEN conjunct1, THEN mp, OF b]
  note t3 = C6_format_date [where B = sample_builtins and v = "PInt 0",
      THEN conjunct2, THEN conjunct2, THEN conjunct2, THEN conjunct1, THEN mp, OF c]
  note t4 = C6_format_date [where B = padding_builtins and v = ?u and i = 2 and dt = ?du,
      THEN conjunct2, THEN conjunct1, THEN mp, OF d]
  note t5 = C6_format_date [where B = sample_builtins and v = ?u and i = 2 and dt = ?du,
      THEN conjunct2, THEN conjunct1, THEN mp, OF e]
  have q1: "pads_year sample_builtins \<or> 1000 \<le> year ?dt"
    and q4: "pads_year padding_builtins \<or> 1000 \<le> year ?du"
    and q5: "\<not> pads_year sample_builtins \<and> year ?du < 1000"
    using p y by simp_all
  note r1 = t1 [THEN conjunct2, THEN conjunct1, THEN mp, OF q1, unfolded s(1)]
  note r4 = t4 [THEN conjunct2, THEN conjunct1, THEN mp, OF q4, unfolded s(2)]
  note r5 = t5 [THEN conjunct2, THEN conjunct2, THEN mp, OF q5, unfolded s(3)]
  have r2: "format_date sample_builtins ?w = ''2023-02-''"
    using t2 by simp
  from r1 r2 t3 r4 r5 show ?thesis by blast
qed

section \<open>Validator\<close>

lemma apply_validation_rule_other:
  "rule_type rule \<noteq> ''required_fields'' \<Longrightarrow> apply_validation_rule df rule \<noteq> Inr False"
  by (auto simp: apply_validation_rule_def split: option.splits)

lemma apply_validation_rule_keys:
  "rule_keys_present rule \<Longrightarrow>
   apply_validation_rule df rule =
     Inr (rule_type rule = ''required_fields'' \<longrightarrow>
            (\<forall>fs. vr_fields rule = Some fs \<longrightarrow> set fs \<subseteq> set (df_columns df)))"
  by (auto simp: apply_validation_rule_def rule_keys_present_def filter_empty_conv Let_def
        split: option.splits if_splits)

lemma validation_loop_keys:
  "\<forall>rule \<in> set rs. rule_keys_present rule \<Longrightarrow>
   validation_loop df rs =
     Inr (\<forall>rule \<in> set rs. rule_type rule = ''required_fields'' \<longrightarrow>
            (\<forall>fs. vr_fields rule = Some fs \<longrightarrow> set fs \<subseteq> set (df_columns df)))"
  by (induction rs) (auto simp: apply_validation_rule_keys)

lemma validation_loop_False:
  "validation_loop df rs = Inr False \<Longrightarrow>
   \<exists>rule \<in> set rs. rule_type rule = ''required_fields''
      \<and> (\<exists>fs. vr_fields rule = Some fs \<and> \<not> set fs \<subseteq> set (df_columns df))"
proof (induction rs)
  case Nil
  then show ?case by simp
next
  case (Cons rule rs)
  show ?case
  proof (cases "apply_validation_rule df rule")
    case (Inl e)
    with Cons.prems show ?thesis by simp
  next
    case (Inr ok)
    show ?thesis
    proof (cases ok)
      case True
      with Inr Cons show ?thesis by auto
    next
      case False
      with Inr have "rule_type rule = ''required_fields''
        \<and> (\<exists>fs. vr_fields rule = Some fs \<and> \<not> set fs \<subseteq> set (df_columns df))"
        by (auto simp: apply_validation_rule_def Let_def filter_empty_conv
              split: option.splits if_splits)
      then show ?thesis by auto
    qed
  qed
qed

lemma mem_required_fields_of:
  "f \<in> set (required_fields_of s) \<longleftrightarrow>
     (\<exists>rule \<in> set (validation_rules s). rule_type rule = ''required_fields''
        \<and> (\<exists>fs. vr_fields rule = Some fs \<and> f \<in> set fs))"
  unfolding required_fields_of_def
  by (auto split: option.splits) (metis option.inject)+

lemmas val_defs = validate_input_data_def required_columns_def apply_validation_rule_def
  sample_table_def select_columns_def sample_input_schema_def

text \<open>
  Claim C1, which the code refutes. The claim says that a \<^verbatim>\<open>required_fields\<close> rule never
  changes the outcome. In the sample schema the only required column is \<^verbatim>\<open>RECORD_TYPE\<close>,
  and a \<^verbatim>\<open>required_fields\<close> rule lists \<^verbatim>\<open>RECORD_TYPE\<close> and \<^verbatim>\<open>CURRENCY_Cosmos\<close>. On a table
  with the columns \<^verbatim>\<open>RECORD_TYPE\<close> and \<^verbatim>\<open>FACE_VALUE\<close> every required column is present, and
  the validator returns fail: \<^verbatim>\<open>apply_validation_rule\<close> returns \<^verbatim>\<open>False\<close> for the missing
  field.
\<close>

theorem C1_required_fields_counterexample:
  "set (required_columns sample_input_schema)
     \<subseteq> set (df_columns (select_columns [''RECORD_TYPE'', ''FACE_VALUE''] sample_table))
   \<and> validate_input_data sample_input_schema
       (select_columns [''RECORD_TYPE'', ''FACE_VALUE''] sample_table) = Inr False"
  by (simp add: val_defs)

text \<open>
  Claim C1 as amended. Validation fails only because a required schema column is
  missing from the table or because a \<^verbatim>\<open>required_fields\<close> rule lists a field that is
  missing from the table. A rule of any other kind (\<^verbatim>\<open>currency_validation\<close>,
  \<^verbatim>\<open>product_type_validation\<close>, an unknown kind) never returns fail, and a
  \<^verbatim>\<open>required_fields\<close> rule with a missing field returns fail. A missing required column
  makes the validator fail. When every rule carries the keys that its kind reads, the
  validator passes exactly when all required columns and all fields listed by the
  \<^verbatim>\<open>required_fields\<close> rules are columns of the table.
\<close>

theorem C1_validation_outcome:
  "(validate_input_data s df = Inr False \<longrightarrow>
      \<not> set (required_columns s) \<subseteq> set (df_columns df)
      \<or> (\<exists>rule \<in> set (validation_rules s). rule_type rule = ''required_fields''
            \<and> (\<exists>fs. vr_fields rule = Some fs \<and> \<not> set fs \<subseteq> set (df_columns df))))
   \<and> (rule_type rule \<noteq> ''required_fields'' \<longrightarrow> apply_validation_rule df rule \<noteq> Inr False)
   \<and> (rule_type rule = ''required_fields'' \<and> vr_fields rule = Some fs
        \<and> \<not> set fs \<subseteq> set (df_columns df) \<longrightarrow> apply_validation_rule df rule = Inr False)
   \<and> (\<not> set (required_columns s) \<subseteq> set (df_columns df) \<longrightarrow> validate_input_data s df = Inr False)
   \<and> ((\<forall>rule \<in> set (validation_rules s). rule_keys_present rule) \<longrightarrow>
      validate_input_data s df =
        Inr (set (required_columns s) \<subseteq> set (df_columns df)
             \<and> set (required_fields_of s) \<subseteq> set (df_columns df)))"
proof (intro conjI impI)
  assume "validate_input_data s df = Inr False"
  then show "\<not> set (required_columns s) \<subseteq> set (df_columns df)
      \<or> (\<exists>rule \<in> set (validation_rules s). rule_type rule = ''required_fields''
            \<and> (\<exists>fs. vr_fields rule = Some fs \<and> \<not> set fs \<subseteq> set (df_columns df)))"
    using validation_loop_False [of df "validation_rules s"]
    by (auto simp: validate_input_data_def Let_def filter_empty_conv split: if_splits)
next
  assume "rule_type rule \<noteq> ''required_fields''"
  then show "apply_validation_rule df rule \<noteq> Inr False"
    by (rule apply_validation_rule_other)
next
  assume "rule_type rule = ''required_fields'' \<and> vr_fields rule = Some fs
        \<and> \<not> set fs \<subseteq> set (df_columns df)"
  then show "apply_validation_rule df rule = Inr False"
    by (auto simp: apply_validation_rule_def Let_def filter_empty_conv)
next
  assume "\<not> set (required_columns s) \<subseteq> set (df_columns df)"
  then show "validate_input_data s df = Inr False"
    by (auto simp: validate_input_data_def Let_def filter_empty_conv)
next
  assume k: "\<forall>rule \<in> set (validation_rules s). rule_keys_present rule"
  have "(\<forall>rule \<in> set (validation_rules s). rule_type rule = ''required_fields'' \<longrightarrow>
            (\<forall>fs. vr_fields rule = Some fs \<longrightarrow> set fs \<subseteq> set (df_columns df)))
        = (set (required_fields_of s) \<subseteq> set (df_columns df))"
    by (auto simp: subset_iff mem_required_fields_of)
  with validation_loop_keys [OF k, of df]
  show "validate_input_data s df =
        Inr (set (required_columns s) \<subseteq> set (df_columns df)
             \<and> set (required_fields_of s) \<subseteq> set (df_columns df))"
    by (auto simp: validate_input_data_def Let_def filter_empty_conv)
qed

text \<open>
  The amended C1 on the sample schema: the full table passes; without the column
  \<^verbatim>\<open>CURRENCY_Cosmos\<close> the \<^verbatim>\<open>required_fields\<close> rule makes the validator fail; without the
  required column \<^verbatim>\<open>RECORD_TYPE\<close> the validator fails; the \<^verbatim>\<open>currency_validation\<close> rule
  does not fail on a table without its column.
\<close>

theorem C1_validation_outcome_witness:
  "validate_input_data sample_input_schema sample_table = Inr True
   \<and> validate_input_data sample_input_schema
       (select_columns [''RECORD_TYPE'', ''FACE_VALUE''] sample_table) = Inr False
   \<and> (\<exists>rule \<in> set (validation_rules sample_input_schema). rule_type rule = ''required_fields''
        \<and> (\<exists>fs. vr_fields rule = Some fs
              \<and> \<not> set fs \<subseteq> set (df_columns (select_columns [''RECORD_TYPE'', ''FACE_VALUE''] sample_table))))
   \<and> validate_input_data sample_input_schema (select_columns [''FACE_VALUE''] sample_table)
       = Inr False
   \<and> apply_validation_rule (select_columns [''FACE_VALUE''] sample_table)
       \<lparr>rule_type = ''currency_validation'', vr_fields = None,
         vr_field = Some ''CURRENCY_Cosmos'', valid_values = Some [PStr ''JPY'', PStr ''USD'']\<rparr>
       \<noteq> Inr False
   \<and> apply_validation_rule (select_columns [''FACE_VALUE''] sample_table)
       \<lparr>rule_type = ''required_fields'', vr_fields = Some [''RECORD_TYPE'', ''CURRENCY_Cosmos''],
         vr_field = None, valid_values = None\<rparr>
       = Inr False"
proof -
  let ?s = sample_input_schema
  let ?narrow = "select_columns [''RECORD_TYPE'', ''FACE_VALUE''] sample_table"
  let ?one = "select_columns [''FACE_VALUE''] sample_table"
  let ?cur = "\<lparr>rule_type = ''currency_validation'', vr_fields = None,
         vr_field = Some ''CURRENCY_Cosmos'', valid_values = Some [PStr ''JPY'', PStr ''USD'']\<rparr>"
  let ?req = "\<lparr>rule_type = ''required_fields'', vr_fields = Some [''RECORD_TYPE'', ''CURRENCY_Cosmos''],
         vr_field = None, valid_values = None\<rparr>"
  have keys: "\<forall>rule \<in> set (validation_rules ?s). rule_keys_present rule"
    by (simp add: sample_input_schema_def rule_keys_present_def)
  have full: "set (required_columns ?s) \<subseteq> set (df_columns sample_table)
      \<and> set (required_fields_of ?s) \<subseteq> set (df_columns sample_table)"
    by (simp add: val_defs required_fields_of_def)
  have narrow: "set (required_columns ?s) \<subseteq> set (df_columns ?narrow)
      \<and> \<not> set (required_fields_of ?s) \<subseteq> set (df_columns ?narrow)"
    by (simp add: val_defs required_fields_of_def)
  have one: "\<not> set (required_columns ?s) \<subseteq> set (df_columns ?one)"
    by (simp add: val_defs)
  have req: "rule_type ?req = ''required_fields'' \<and> vr_fields ?req = Some [''RECORD_TYPE'', ''CURRENCY_Cosmos'']
      \<and> \<not> set [''RECORD_TYPE'', ''CURRENCY_Cosmos''] \<subseteq> set (df_columns ?one)"
    by (simp add: val_defs)
  have cur: "rule_type ?cur \<noteq> ''required_fields''"
    by simp
  have w1: "validate_input_data ?s sample_table = Inr True"
    using C1_validation_outcome [where s = ?s and df = sample_table] keys full by simp
  have w2: "validate_input_data ?s ?narrow = Inr False"
    using C1_validation_outcome [where s = ?s and df = ?narrow] keys narrow by simp
  have w3: "\<exists>rule \<in> set (validation_rules ?s). rule_type rule = ''required_fields''
        \<and> (\<exists>fs. vr_fields rule = Some fs \<and> \<not> set fs \<subseteq> set (df_columns ?narrow))"
    using C1_validation_outcome [where s = ?s and df = ?narrow] w2 narrow by blast
  have w4: "validate_input_data ?s ?one = Inr False"
    using C1_validation_outcome [where s = ?s and df = ?one] one by blast
  have w5: "apply_validation_rule ?one ?cur \<noteq> Inr False"
    using C1_validation_outcome [where df = ?one and rule = ?cur] cur by blast
  have w6: "apply_validation_rule ?one ?req = Inr False"
    using C1_validation_outcome [where df = ?one and rule = ?req
        and fs = "[''RECORD_TYPE'', ''CURRENCY_Cosmos'']"] req by blast
  from w1 w2 w3 w4 w5 w6 show ?thesis by blast
qed

section \<open>Fixed-width parser\<close>

lemma parse_field_value: "parse_field B line position c = Inr (field_value B line position c)"
  by (auto simp: parse_field_def field_value_def Let_def split: option.splits)

lemma offset_Cons: "offset (c # cs) (Suc i) = field_length c + offset cs i"
  by (simp add: offset_def)

lemma parse_columns_result:
  "\<exists>record'. parse_columns B line cs position rec0 = Inr record'
     \<and> (\<forall>k. k \<notin> set (map col_name cs) \<longrightarrow> record' k = rec0 k)
     \<and> (\<forall>i < length cs.
           (\<forall>j. i < j \<and> j < length cs \<longrightarrow> col_name (cs ! j) \<noteq> col_name (cs ! i)) \<longrightarrow>
           record' (col_name (cs ! i)) = Some (field_value B line (position + offset cs i) (cs ! i)))"
proof (induction cs arbitrary: position rec0)
  case Nil
  then show ?case by simp
next
  case (Cons c cs)
  let ?rec = "rec0(col_name c \<mapsto> field_value B line position c)"
  from Cons.IH [of "position + field_length c" ?rec] obtain record'
    where r: "parse_columns B line cs (position + field_length c) ?rec = Inr record'"
      and keep: "\<forall>k. k \<notin> set (map col_name cs) \<longrightarrow> record' k = ?rec k"
      and val: "\<forall>i < length cs.
           (\<forall>j. i < j \<and> j < length cs \<longrightarrow> col_name (cs ! j) \<noteq> col_name (cs ! i)) \<longrightarrow>
           record' (col_name (cs ! i))
             = Some (field_value B line (position + field_length c + offset cs i) (cs ! i))"
    by blast
  have p: "parse_columns B line (c # cs) position rec0 = Inr record'"
    using r by (simp add: parse_field_value)
  have k: "\<forall>k. k \<notin> set (map col_name (c # cs)) \<longrightarrow> record' k = rec0 k"
    using keep by auto
  have v: "record' (col_name ((c # cs) ! i))
             = Some (field_value B line (position + offset (c # cs) i) ((c # cs) ! i))"
    if i: "i < length (c # cs)"
      and d: "\<forall>j. i < j \<and> j < length (c # cs) \<longrightarrow> col_name ((c # cs) ! j) \<noteq> col_name ((c # cs) ! i)"
    for i
  proof (cases i)
    case 0
    have "col_name c \<notin> set (map col_name cs)"
    proof
      assume "col_name c \<in> set (map col_name cs)"
      then obtain j where "j < length cs" "col_name (cs ! j) = col_name c"
        by (auto simp: in_set_conv_nth)
      with d 0 show False by (auto dest: spec [of _ "Suc j"])
    qed
    with keep 0 show ?thesis by (simp add: offset_def)
  next
    case (Suc n)
    have "\<forall>j. n < j \<and> j < length cs \<longrightarrow> col_name (cs ! j) \<noteq> col_name (cs ! n)"
    proof (intro allI impI)
      fix j assume "n < j \<and> j < length cs"
      with d Suc show "col_name (cs ! j) \<noteq> col_name (cs ! n)"
        by (auto dest: spec [of _ "Suc j"])
    qed
    with val i Suc show ?thesis by (simp add: offset_Cons add.assoc)
  qed
  from p k v show ?case by blast
qed

text \<open>
  Claim C7. For every line and input schema, \<^verbatim>\<open>parse_dat_line\<close> produces a record. For a
  column whose name no later column repeats, the record holds the value of the column at
  its offset, where the offsets start at 0 and the offset of the next column adds the
  length of this one. The value of a column whose span ends beyond the line is the empty
  text, or 0.0 for a numeric column. For a numeric column an empty extracted text gives
  0.0, a text that \<^verbatim>\<open>float\<close> rejects gives 0.0, and a text that \<^verbatim>\<open>float\<close> accepts gives its
  float. The body of the loop computes exactly this value and never raises.
\<close>

theorem C7_parse_dat_line:
  "(\<exists>record. parse_dat_line B s line = Some record
      \<and> (\<forall>i < length (columns s).
            (\<forall>j. i < j \<and> j < length (columns s) \<longrightarrow>
                 col_name (columns s ! j) \<noteq> col_name (columns s ! i)) \<longrightarrow>
            record (col_name (columns s ! i))
              = Some (field_value B line (offset (columns s) i) (columns s ! i))))
   \<and> offset cs 0 = 0
   \<and> (i < length cs \<longrightarrow> offset cs (Suc i) = offset cs i + field_length (cs ! i))
   \<and> (position + field_length c > int (length line) \<longrightarrow>
        field_text line position c = ''''
        \<and> field_value B line position c
            = (if data_type c = ''numeric'' then PFloat (Finite 0) else PStr ''''))
   \<and> (data_type c = ''numeric'' \<and> field_text line position c = '''' \<longrightarrow>
        field_value B line position c = PFloat (Finite 0))
   \<and> (data_type c = ''numeric'' \<and> field_text line position c \<noteq> ''''
        \<and> float_of_str B (field_text line position c) = None \<longrightarrow>
        field_value B line position c = PFloat (Finite 0))
   \<and> (data_type c = ''numeric'' \<and> field_text line position c \<noteq> ''''
        \<and> float_of_str B (field_text line position c) = Some x \<longrightarrow>
        field_value B line position c = PFloat x)
   \<and> parse_field B line position c = Inr (field_value B line position c)"
proof -
  have a: "\<exists>record. parse_dat_line B s line = Some record
      \<and> (\<forall>i < length (columns s).
            (\<forall>j. i < j \<and> j < length (columns s) \<longrightarrow>
                 col_name (columns s ! j) \<noteq> col_name (columns s ! i)) \<longrightarrow>
            record (col_name (columns s ! i))
              = Some (field_value B line (offset (columns s) i) (columns s ! i)))"
    using parse_columns_result [of B line "columns s" 0 Map.empty]
    by (auto simp: parse_dat_line_def)
  have b: "i < length cs \<longrightarrow> offset cs (Suc i) = offset cs i + field_length (cs ! i)"
    by (simp add: offset_def take_Suc_conv_app_nth)
  show ?thesis
    using a b by (simp add: parse_field_value) (auto simp: offset_def field_value_def field_text_def)
qed

lemmas parse_defs = field_value_def field_text_def field_length_def data_type_def
  py_slice_def py_strip_def is_space_def offset_def sample_input_schema_def
  sample_builtins_def is_digit_def char_in_def int_of_text_def

text \<open>
  C7 on the sample schema (columns of lengths 3, 3 and 8, the last one numeric): a line
  of 5 characters, on which the span of the second and of the third column end beyond
  the line; a full line; and a full line whose number \<^verbatim>\<open>float\<close> rejects.
\<close>

theorem C7_parse_dat_line_witness:
  "map_option (\<lambda>record. map record [''RECORD_TYPE'', ''CURRENCY_Cosmos'', ''FACE_VALUE''])
     (parse_dat_line sample_builtins sample_input_schema ''TXNJP'')
     = Some [Some (PStr ''TXN''), Some (PStr ''''), Some (PFloat (Finite 0))]
   \<and> offset (columns sample_input_schema) 2 = 6
   \<and> field_value sample_builtins ''TXNJP'' 6 (columns sample_input_schema ! 2) = PFloat (Finite 0)
   \<and> field_value sample_builtins ''TXNJPY  100000'' 6 (columns sample_input_schema ! 2)
       = PFloat (Finite 100000)
   \<and> field_value sample_builtins ''TXNJPY  1x0000'' 6 (columns sample_input_schema ! 2)
       = PFloat (Finite 0)
   \<and> field_value sample_builtins ''TXNJPY        '' 6 (columns sample_input_schema ! 2)
       = PFloat (Finite 0)"
proof -
  let ?B = sample_builtins
  let ?s = sample_input_schema
  let ?c = "columns sample_input_schema ! 2"
  from C7_parse_dat_line [where B = ?B and s = ?s and line = "''TXNJP''"]
  obtain rec1 where p: "parse_dat_line ?B ?s ''TXNJP'' = Some rec1"
    and v: "\<forall>i < length (columns ?s).
            (\<forall>j. i < j \<and> j < length (columns ?s) \<longrightarrow>
                 col_name (columns ?s ! j) \<noteq> col_name (columns ?s ! i)) \<longrightarrow>
            rec1 (col_name (columns ?s ! i))
              = Some (field_value ?B ''TXNJP'' (offset (columns ?s) i) (columns ?s ! i))"
    by blast
  have d: "\<forall>i < length (columns ?s). \<forall>j. i < j \<and> j < length (columns ?s) \<longrightarrow>
             col_name (columns ?s ! j) \<noteq> col_name (columns ?s ! i)"
    by (auto simp: sample_input_schema_def less_Suc_eq numeral_3_eq_3)
  from v d have v': "\<forall>i < length (columns ?s).
      rec1 (col_name (columns ?s ! i))
        = Some (field_value ?B ''TXNJP'' (offset (columns ?s) i) (columns ?s ! i))"
    by blast
  have r0: "rec1 ''RECORD_TYPE'' = Some (PStr ''TXN'')"
    using v' [rule_format, of 0] by (simp add: parse_defs)
  have r1: "rec1 ''CURRENCY_Cosmos'' = Some (PStr '''')"
    using v' [rule_format, of 1] by (simp add: parse_defs)
  have r2: "rec1 ''FACE_VALUE'' = Some (PFloat (Finite 0))"
    using v' [rule_format, of 2] by (simp add: parse_defs)
  have o1: "offset (columns ?s) (Suc 0) = 3"
    using C7_parse_dat_line [where i = 0 and cs = "columns ?s",
        THEN conjunct2, THEN conjunct2, THEN conjunct1]
      C7_parse_dat_line [where cs = "columns ?s", THEN conjunct2, THEN conjunct1]
    by (simp add: sample_input_schema_def field_length_def)
  have o: "offset (columns ?s) 2 = 6"
    using C7_parse_dat_line [where i = "Suc 0" and cs = "columns ?s",
        THEN conjunct2, THEN conjunct2, THEN conjunct1] o1
    by (simp add: sample_input_schema_def field_length_def numeral_2_eq_2)
  have beyond: "6 + field_length ?c > int (length ''TXNJP'')"
    by (simp add: parse_defs)
  have f1: "field_value ?B ''TXNJP'' 6 ?c = PFloat (Finite 0)"
    using C7_parse_dat_line [where B = ?B and line = "''TXNJP''" and position = 6 and c = ?c] beyond
    by (simp add: sample_input_schema_def data_type_def)
  have ok: "data_type ?c = ''numeric'' \<and> field_text ''TXNJPY  100000'' 6 ?c \<noteq> ''''
      \<and> float_of_str ?B (field_text ''TXNJPY  100000'' 6 ?c) = Some (Finite 100000)"
    by (simp add: parse_defs)
  have f2: "field_value ?B ''TXNJPY  100000'' 6 ?c = PFloat (Finite 100000)"
    using C7_parse_dat_line [where B = ?B and line = "''TXNJPY  100000''" and position = 6
        and c = ?c and x = "Finite 100000"] ok
    by blast
  have bad: "data_type ?c = ''numeric'' \<and> field_text ''TXNJPY  1x0000'' 6 ?c \<noteq> ''''
      \<and> float_of_str ?B (field_text ''TXNJPY  1x0000'' 6 ?c) = None"
    by (simp add: parse_defs)
  have f3: "field_value ?B ''TXNJPY  1x0000'' 6 ?c = PFloat (Finite 0)"
    using C7_parse_dat_line [where B = ?B and line = "''TXNJPY  1x0000''" and position = 6
        and c = ?c] bad
    by blast
  have blank: "data_type ?c = ''numeric'' \<and> field_text ''TXNJPY        '' 6 ?c = ''''"
    by (simp add: parse_defs)
  have f4: "field_value ?B ''TXNJPY        '' 6 ?c = PFloat (Finite 0)"
    using C7_parse_dat_line [where B = ?B and line = "''TXNJPY        ''" and position = 6
        and c = ?c] blank
    by blast
  from p r0 r1 r2 o f1 f2 f3 f4 show ?thesis by simp
qed

section \<open>Row transformer and orchestrator\<close>

lemma rows_loop_append:
  "rows_loop B cfg rs acc = acc @ concat (map (transformed_of B cfg) rs)"
  by (induction rs arbitrary: acc) (auto simp: transformed_of_def split: sum.splits)

lemma convert_data_valid:
  "validate_input_data (input_schema cfg) df = Inr True \<Longrightarrow>
   convert_data B cfg df =
     Inr \<lparr>df_columns = all_output_fields (output_schema cfg),
          df_rows = output_rows B cfg (df_rows df)\<rparr>"
  by (simp add: convert_data_def output_rows_def rows_loop_append Let_def)

lemmas cfg_defs = sample_converter_def sample_output_schema_def sample_input_schema_def
  sample_drorcr_rule_def side_mapping_def termid_mapping_def

lemmas row_defs = transform_row_def populate_def apply_transformation_rule_def
  calculate_balance_sign_from_config_def calculate_drorcr_from_config_def
  apply_field_mapping_def store_result_def dict_update_def all_output_fields_def

text \<open>
  Claim C9. For a table that passes validation, \<^verbatim>\<open>convert_data\<close> returns the table whose
  rows are, in input order, the transformed rows of the input rows whose transformation
  does not raise. A row whose transformation raises contributes nothing, and the rows
  before and after it are processed as without it; a row whose transformation returns
  contributes its transformed row between those of the rows before and after it.
\<close>

theorem C9_rows_in_order:
  "(validate_input_data (input_schema cfg) df = Inr True \<longrightarrow>
      convert_data B cfg df =
        Inr \<lparr>df_columns = all_output_fields (output_schema cfg),
             df_rows = output_rows B cfg (df_rows df)\<rparr>)
   \<and> output_rows B cfg [] = []
   \<and> (transform_row B cfg r = Inl e \<longrightarrow>
        output_rows B cfg (pre @ r # post) = output_rows B cfg pre @ output_rows B cfg post)
   \<and> (transform_row B cfg r = Inr t \<longrightarrow>
        output_rows B cfg (pre @ r # post) =
          output_rows B cfg pre @ frame_row (all_output_fields (output_schema cfg)) t
            # output_rows B cfg post)"
  by (simp add: convert_data_valid) (simp add: output_rows_def transformed_of_def)

text \<open>
  C9 on the sample table: the transformation of the second row raises
  \<^verbatim>\<open>OverflowError\<close>, and the output table has the transformed first and third row.
\<close>

theorem C9_rows_in_order_witness:
  "validate_input_data (input_schema (sample_converter [side_mapping])) sample_table = Inr True
   \<and> transform_row sample_builtins (sample_converter [side_mapping]) (sample_rows ! 1)
       = Inl OverflowError
   \<and> output_rows sample_builtins (sample_converter [side_mapping]) sample_rows
       = output_rows sample_builtins (sample_converter [side_mapping]) [sample_rows ! 0]
         @ output_rows sample_builtins (sample_converter [side_mapping]) [sample_rows ! 2]
   \<and> map_sum id cells (convert_data sample_builtins (sample_converter [side_mapping]) sample_table)
       = Inr [[Some (PStr ''TXN''), Some (PStr ''C''), Some (PStr ''D''), Some (PStr '''')],
              [Some (PStr ''ADJ''), Some (PStr ''D''), Some (PStr ''C''), Some (PStr '''')]]"
proof -
  let ?B = sample_builtins
  let ?cfg = "sample_converter [side_mapping]"
  let ?all = "all_output_fields (output_schema ?cfg)"
  let ?t0 = "[''OPBALSIGN'' \<mapsto> PStr ''C'', ''CLBALSIGN'' \<mapsto> PStr ''C'',
              ''DRORCR'' \<mapsto> PStr ''D'', ''SIDE'' \<mapsto> PStr ''TXN'', ''TERMID'' \<mapsto> PStr '''']"
  let ?t2 = "[''OPBALSIGN'' \<mapsto> PStr ''D'', ''CLBALSIGN'' \<mapsto> PStr ''D'',
              ''DRORCR'' \<mapsto> PStr ''C'', ''SIDE'' \<mapsto> PStr ''ADJ'', ''TERMID'' \<mapsto> PStr '''']"
  have rows: "sample_rows = [sample_rows ! 0] @ sample_rows ! 1 # [sample_rows ! 2]"
    by (simp add: sample_rows_def)
  have v: "validate_input_data (input_schema ?cfg) sample_table = Inr True"
    by (simp add: val_defs sample_converter_def)
  have t0: "transform_row ?B ?cfg (sample_rows ! 0) = Inr ?t0"
    by (simp add: sample_rows_def cfg_defs row_defs ev_defs)
  have t1: "transform_row ?B ?cfg (sample_rows ! 1) = Inl OverflowError"
    by (simp add: sample_rows_def cfg_defs row_defs ev_defs)
  have t2: "transform_row ?B ?cfg (sample_rows ! 2) = Inr ?t2"
    by (simp add: sample_rows_def cfg_defs row_defs ev_defs)
  have c: "convert_data ?B ?cfg sample_table
      = Inr \<lparr>df_columns = ?all, df_rows = output_rows ?B ?cfg (df_rows sample_table)\<rparr>"
    using C9_rows_in_order [where B = ?B and cfg = ?cfg and df = sample_table] v by blast
  have skip: "output_rows ?B ?cfg ([sample_rows ! 0] @ sample_rows ! 1 # [sample_rows ! 2])
      = output_rows ?B ?cfg [sample_rows ! 0] @ output_rows ?B ?cfg [sample_rows ! 2]"
    using C9_rows_in_order [where B = ?B and cfg = ?cfg and r = "sample_rows ! 1"
        and e = OverflowError and pre = "[sample_rows ! 0]" and post = "[sample_rows ! 2]"] t1
    by blast
  have k0: "output_rows ?B ?cfg ([] @ sample_rows ! 0 # []) = [] @ frame_row ?all ?t0 # []"
    using C9_rows_in_order [where B = ?B and cfg = ?cfg and r = "sample_rows ! 0"
        and t = ?t0 and pre = "[]" and post = "[]"] t0
    by simp
  have k2: "output_rows ?B ?cfg ([] @ sample_rows ! 2 # []) = [] @ frame_row ?all ?t2 # []"
    using C9_rows_in_order [where B = ?B and cfg = ?cfg and r = "sample_rows ! 2"
        and t = ?t2 and pre = "[]" and post = "[]"] t2
    by simp
  have out: "output_rows ?B ?cfg sample_rows = [frame_row ?all ?t0, frame_row ?all ?t2]"
    using rows skip k0 k2 by simp
  have cells: "cells \<lparr>df_columns = ?all, df_rows = [frame_row ?all ?t0, frame_row ?all ?t2]\<rparr>
      = [[Some (PStr ''TXN''), Some (PStr ''C''), Some (PStr ''D''), Some (PStr '''')],
         [Some (PStr ''ADJ''), Some (PStr ''D''), Some (PStr ''C''), Some (PStr '''')]]"
    by (simp add: cells_def frame_row_def cfg_defs all_output_fields_def)
  have tab: "df_rows sample_table = sample_rows"
    by (simp add: sample_table_def)
  from v t1 rows skip c out cells tab show ?thesis by simp
qed

lemma mappings_loop_fails:
  "m \<in> set ms \<Longrightarrow> transformation m = ''DEFAULT_VALUE'' \<Longrightarrow> default_value m = None \<Longrightarrow>
   \<exists>e. mappings_loop B r ms t = Inl e"
proof (induction ms arbitrary: t)
  case Nil
  then show ?case by simp
next
  case (Cons a ms)
  show ?case
  proof (cases "apply_field_mapping B r a")
    case (Inl e)
    then show ?thesis by simp
  next
    case (Inr v)
    with Cons.prems have "a \<noteq> m" by (auto simp: apply_field_mapping_def)
    with Cons.prems have "m \<in> set ms" by simp
    from Cons.IH [OF this Cons.prems(2,3)] Inr show ?thesis by simp
  qed
qed

lemma transform_row_fails:
  assumes "m \<in> set (field_mappings (processing_rules cfg))" "transformation m = ''DEFAULT_VALUE''"
    "default_value m = None"
  shows "\<exists>e. transform_row B cfg r = Inl e"
proof (cases "rules_loop B r (transformation_rules (processing_rules cfg)) Map.empty")
  case (Inl e)
  then show ?thesis by (simp add: transform_row_def populate_def)
next
  case (Inr t)
  from mappings_loop_fails [OF assms, of B r t] obtain e
    where "mappings_loop B r (field_mappings (processing_rules cfg)) t = Inl e" by blast
  with Inr show ?thesis by (simp add: transform_row_def populate_def)
qed

text \<open>
  Claim C10. When the configuration has a field mapping of kind \<^verbatim>\<open>DEFAULT_VALUE\<close> without
  a \<^verbatim>\<open>default_value\<close> entry, applying that mapping raises \<^verbatim>\<open>KeyError\<close>, \<^verbatim>\<open>transform_row\<close>
  raises on every row, no row contributes to the output, and on a table that passes
  validation \<^verbatim>\<open>convert_data\<close> returns a table without rows.
\<close>

theorem C10_default_value_missing:
  "m \<in> set (field_mappings (processing_rules cfg)) \<and> transformation m = ''DEFAULT_VALUE''
     \<and> default_value m = None \<longrightarrow>
   apply_field_mapping B r m = Inl (KeyError ''default_value'')
   \<and> (\<exists>e. transform_row B cfg r = Inl e)
   \<and> transformed_of B cfg r = []
   \<and> (validate_input_data (input_schema cfg) df = Inr True \<longrightarrow>
        convert_data B cfg df =
          Inr \<lparr>df_columns = all_output_fields (output_schema cfg), df_rows = []\<rparr>)"
proof (intro impI)
  assume h: "m \<in> set (field_mappings (processing_rules cfg)) \<and> transformation m = ''DEFAULT_VALUE''
     \<and> default_value m = None"
  then have a: "apply_field_mapping B r m = Inl (KeyError ''default_value'')"
    by (simp add: apply_field_mapping_def)
  have f: "\<exists>e. transform_row B cfg r' = Inl e" for r'
    using h transform_row_fails [of m cfg B r'] by blast
  have t: "transformed_of B cfg r' = []" for r'
    using f [of r'] by (auto simp: transformed_of_def)
  then have "output_rows B cfg rs = []" for rs
    by (simp add: output_rows_def)
  with a f t show "apply_field_mapping B r m = Inl (KeyError ''default_value'')
   \<and> (\<exists>e. transform_row B cfg r = Inl e)
   \<and> transformed_of B cfg r = []
   \<and> (validate_input_data (input_schema cfg) df = Inr True \<longrightarrow>
        convert_data B cfg df =
          Inr \<lparr>df_columns = all_output_fields (output_schema cfg), df_rows = []\<rparr>)"
    by (simp add: convert_data_valid)
qed

text \<open>
  C10 on the sample converter with a \<^verbatim>\<open>DEFAULT_VALUE\<close> mapping for \<^verbatim>\<open>TERMID\<close> that has
  no default value: the first row is not transformed, and the output table is empty.
\<close>

theorem C10_default_value_missing_witness:
  "apply_field_mapping sample_builtins (sample_rows ! 0) termid_mapping
     = Inl (KeyError ''default_value'')
   \<and> transform_row sample_builtins (sample_converter [side_mapping, termid_mapping])
       (sample_rows ! 0) = Inl (KeyError ''default_value'')
   \<and> convert_data sample_builtins (sample_converter [side_mapping, termid_mapping]) sample_table
       = Inr \<lparr>df_columns = [''SIDE'', ''OPBALSIGN'', ''DRORCR'', ''TERMID''], df_rows = []\<rparr>"
proof -
  let ?B = sample_builtins
  let ?cfg = "sample_converter [side_mapping, termid_mapping]"
  have h: "termid_mapping \<in> set (field_mappings (processing_rules ?cfg))
      \<and> transformation termid_mapping = ''DEFAULT_VALUE''
      \<and> default_value termid_mapping = None"
    by (simp add: sample_converter_def termid_mapping_def)
  have v: "validate_input_data (input_schema ?cfg) sample_table = Inr True"
    by (simp add: val_defs sample_converter_def)
  have all: "all_output_fields (output_schema ?cfg) = [''SIDE'', ''OPBALSIGN'', ''DRORCR'', ''TERMID'']"
    by (simp add: all_output_fields_def cfg_defs)
  have e: "transform_row ?B ?cfg (sample_rows ! 0) = Inl (KeyError ''default_value'')"
    by (simp add: sample_rows_def cfg_defs row_defs ev_defs)
  show ?thesis
    using h v all e
      C10_default_value_missing [where m = termid_mapping and cfg = ?cfg and B = ?B
        and r = "sample_rows ! 0" and df = sample_table]
    by simp
qed

lemma fill_loop_apply:
  "fill_loop fs t f = (if t f = None \<and> f \<in> set fs then Some (PStr '''') else t f)"
  by (induction fs arbitrary: t) auto

lemma dom_fill_loop: "dom (fill_loop fs t) = dom t \<union> set fs"
  by (auto simp: dom_def fill_loop_apply)

text \<open>
  Claim C3, which the code refutes. The claim says that the mapping that \<^verbatim>\<open>transform_row\<close>
  produces has no key outside the output fields. The sample output schema has the
  fields \<^verbatim>\<open>SIDE\<close>, \<^verbatim>\<open>OPBALSIGN\<close>, \<^verbatim>\<open>DRORCR\<close> and \<^verbatim>\<open>TERMID\<close>; the balance sign rule also
  sets \<^verbatim>\<open>CLBALSIGN\<close>, and \<^verbatim>\<open>transform_row\<close> keeps that key.
\<close>

theorem C3_extra_key_counterexample:
  "transform_row sample_builtins (sample_converter [side_mapping]) (sample_rows ! 0)
     = Inr [''OPBALSIGN'' \<mapsto> PStr ''C'', ''CLBALSIGN'' \<mapsto> PStr ''C'',
            ''DRORCR'' \<mapsto> PStr ''D'', ''SIDE'' \<mapsto> PStr ''TXN'', ''TERMID'' \<mapsto> PStr '''']
   \<and> ''CLBALSIGN'' \<in> dom [''OPBALSIGN'' \<mapsto> PStr ''C'', ''CLBALSIGN'' \<mapsto> PStr ''C'',
            ''DRORCR'' \<mapsto> PStr ''D'', ''SIDE'' \<mapsto> PStr ''TXN'', ''TERMID'' \<mapsto> PStr '''']
   \<and> ''CLBALSIGN'' \<notin> set (all_output_fields (output_schema (sample_converter [side_mapping])))"
  by (simp add: sample_rows_def cfg_defs row_defs ev_defs)

text \<open>
  Claim C3 as amended. When \<^verbatim>\<open>transform_row\<close> returns a mapping, its key set is the union
  of the keys that the transformation rules and the field mappings have set and of the
  output fields (the output schema's column names and the additional output fields): no
  output field is missing, and a key outside the output fields is one that a rule or a
  mapping has set. Every output field that no rule or mapping has set is bound to the
  empty text, and the other keys keep the value that the rules and mappings gave them.
  The row that \<^verbatim>\<open>convert_data\<close> puts into the output table for this mapping has exactly
  the output fields as keys, with the values of the mapping; so has every row of a table
  that \<^verbatim>\<open>convert_data\<close> returns.
\<close>

theorem C3_output_fields:
  "(transform_row B cfg r = Inr t \<longrightarrow>
      (\<exists>t0. populate B cfg r = Inr t0
         \<and> dom t = dom t0 \<union> set (all_output_fields (output_schema cfg))
         \<and> (\<forall>f. f \<in> set (all_output_fields (output_schema cfg)) \<and> t0 f = None \<longrightarrow>
               t f = Some (PStr ''''))
         \<and> (\<forall>f. t0 f \<noteq> None \<longrightarrow> t f = t0 f))
      \<and> dom (frame_row (all_output_fields (output_schema cfg)) t)
           = set (all_output_fields (output_schema cfg))
      \<and> (\<forall>f. f \<in> set (all_output_fields (output_schema cfg)) \<longrightarrow>
            frame_row (all_output_fields (output_schema cfg)) t f = t f))
   \<and> (convert_data B cfg df = Inr out \<longrightarrow>
        (\<forall>row \<in> set (df_rows out). dom row = set (all_output_fields (output_schema cfg))))"
proof (intro conjI impI)
  assume h: "transform_row B cfg r = Inr t"
  then obtain t0 where p: "populate B cfg r = Inr t0"
    and t: "t = fill_loop (all_output_fields (output_schema cfg)) t0"
    by (auto simp: transform_row_def split: sum.splits)
  show "\<exists>t0. populate B cfg r = Inr t0
         \<and> dom t = dom t0 \<union> set (all_output_fields (output_schema cfg))
         \<and> (\<forall>f. f \<in> set (all_output_fields (output_schema cfg)) \<and> t0 f = None \<longrightarrow>
               t f = Some (PStr ''''))
         \<and> (\<forall>f. t0 f \<noteq> None \<longrightarrow> t f = t0 f)"
    using p t by (simp add: dom_fill_loop fill_loop_apply)
  show "dom (frame_row (all_output_fields (output_schema cfg)) t)
           = set (all_output_fields (output_schema cfg))"
    by (auto simp: frame_row_def dom_def)
  show "\<forall>f. f \<in> set (all_output_fields (output_schema cfg)) \<longrightarrow>
            frame_row (all_output_fields (output_schema cfg)) t f = t f"
    using t by (auto simp: frame_row_def fill_loop_apply split: option.splits)
next
  assume "convert_data B cfg df = Inr out"
  then have "df_rows out = output_rows B cfg (df_rows df)"
    by (auto simp: convert_data_def output_rows_def rows_loop_append Let_def
          split: sum.splits if_splits)
  then show "\<forall>row \<in> set (df_rows out). dom row = set (all_output_fields (output_schema cfg))"
    by (auto simp: output_rows_def frame_row_def dom_def split: if_splits)
qed

text \<open>
  The amended C3 on the first sample row: the rules and the mapping set four keys, the
  filling adds \<^verbatim>\<open>TERMID\<close>, and the row of the output table has the four output fields.
\<close>

theorem C3_output_fields_witness:
  "populate sample_builtins (sample_converter [side_mapping]) (sample_rows ! 0)
     = Inr [''OPBALSIGN'' \<mapsto> PStr ''C'', ''CLBALSIGN'' \<mapsto> PStr ''C'',
            ''DRORCR'' \<mapsto> PStr ''D'', ''SIDE'' \<mapsto> PStr ''TXN'']
   \<and> (case transform_row sample_builtins (sample_converter [side_mapping]) (sample_rows ! 0) of
        Inl e \<Rightarrow> False
      | Inr t \<Rightarrow>
          dom t = dom [''OPBALSIGN'' \<mapsto> PStr ''C'', ''CLBALSIGN'' \<mapsto> PStr ''C'',
                       ''DRORCR'' \<mapsto> PStr ''D'', ''SIDE'' \<mapsto> PStr ''TXN'']
                    \<union> set [''SIDE'', ''OPBALSIGN'', ''DRORCR'', ''TERMID'']
          \<and> t ''TERMID'' = Some (PStr '''') \<and> t ''SIDE'' = Some (PStr ''TXN'')
          \<and> dom (frame_row [''SIDE'', ''OPBALSIGN'', ''DRORCR'', ''TERMID''] t)
               = set [''SIDE'', ''OPBALSIGN'', ''DRORCR'', ''TERMID'']
          \<and> frame_row [''SIDE'', ''OPBALSIGN'', ''DRORCR'', ''TERMID''] t ''SIDE''
               = Some (PStr ''TXN''))
   \<and> (case convert_data sample_builtins (sample_converter [side_mapping]) sample_table of
        Inl e \<Rightarrow> False
      | Inr out \<Rightarrow> list_all (\<lambda>row. dom row = set [''SIDE'', ''OPBALSIGN'', ''DRORCR'', ''TERMID''])
                     (df_rows out))"
proof -
  let ?B = sample_builtins
  let ?cfg = "sample_converter [side_mapping]"
  let ?r = "sample_rows ! 0"
  let ?p = "[''OPBALSIGN'' \<mapsto> PStr ''C'', ''CLBALSIGN'' \<mapsto> PStr ''C'',
             ''DRORCR'' \<mapsto> PStr ''D'', ''SIDE'' \<mapsto> PStr ''TXN'']"
  let ?all = "[''SIDE'', ''OPBALSIGN'', ''DRORCR'', ''TERMID'']"
  define t where "t = fill_loop (all_output_fields (output_schema ?cfg)) ?p"
  have all: "all_output_fields (output_schema ?cfg) = ?all"
    by (simp add: all_output_fields_def cfg_defs)
  have p: "populate ?B ?cfg ?r = Inr ?p"
    by (simp add: sample_rows_def cfg_defs row_defs ev_defs)
  have tr: "transform_row ?B ?cfg ?r = Inr t"
    unfolding transform_row_def p t_def by simp
  note c3 = C3_output_fields [where B = ?B and cfg = ?cfg and r = ?r and t = t,
      THEN conjunct1, THEN mp, OF tr]
  from c3 [THEN conjunct1] obtain t0 where a: "populate ?B ?cfg ?r = Inr t0"
    and d: "dom t = dom t0 \<union> set (all_output_fields (output_schema ?cfg))"
    and e: "\<forall>f. f \<in> set (all_output_fields (output_schema ?cfg)) \<and> t0 f = None \<longrightarrow>
               t f = Some (PStr '''')"
    and k: "\<forall>f. t0 f \<noteq> None \<longrightarrow> t f = t0 f"
    by blast
  from a have t0: "t0 = ?p"
    unfolding p by (simp only: sum.inject)
  have d': "dom t = dom ?p \<union> set ?all"
    using d unfolding t0 all .
  have t1: "t ''TERMID'' = Some (PStr '''')"
    using e [rule_format, of "''TERMID''"] unfolding t0 all by simp
  have t2: "t ''SIDE'' = Some (PStr ''TXN'')"
    using k [rule_format, of "''SIDE''"] unfolding t0 by simp
  have fd: "dom (frame_row ?all t) = set ?all"
    using c3 [THEN conjunct2, THEN conjunct1] unfolding all .
  have t3: "frame_row ?all t ''SIDE'' = Some (PStr ''TXN'')"
    using c3 [THEN conjunct2, THEN conjunct2, rule_format, of "''SIDE''"] t2
    unfolding all by simp
  have first: "(case transform_row ?B ?cfg ?r of
        Inl e \<Rightarrow> False
      | Inr t \<Rightarrow>
          dom t = dom ?p \<union> set ?all
          \<and> t ''TERMID'' = Some (PStr '''') \<and> t ''SIDE'' = Some (PStr ''TXN'')
          \<and> dom (frame_row ?all t) = set ?all
          \<and> frame_row ?all t ''SIDE'' = Some (PStr ''TXN''))"
    unfolding tr using d' t1 t2 fd t3 by (simp only: sum.case simp_thms)
  have v: "validate_input_data (input_schema ?cfg) sample_table = Inr True"
    by (simp add: val_defs sample_converter_def)
  define out where "out = \<lparr>df_columns = all_output_fields (output_schema ?cfg),
          df_rows = output_rows ?B ?cfg (df_rows sample_table)\<rparr>"
  have c: "convert_data ?B ?cfg sample_table = Inr out"
    unfolding out_def using v by (rule convert_data_valid)
  from C3_output_fields [where B = ?B and cfg = ?cfg and df = sample_table and out = out,
      THEN conjunct2, THEN mp, OF c]
  have rows: "list_all (\<lambda>row. dom row = set ?all) (df_rows out)"
    unfolding all list_all_iff .
  have second: "(case convert_data ?B ?cfg sample_table of
        Inl e \<Rightarrow> False
      | Inr out \<Rightarrow> list_all (\<lambda>row. dom row = set ?all) (df_rows out))"
    unfolding c using rows by (simp only: sum.case)
  from p first second show ?thesis by (intro conjI)
qed

end
